theory Spec2Isabelle
  imports Main "HOL-Library.Sublist"
begin

section \<open>Data model of package azure (roles.go)\<close>

text \<open>
  Go strings are byte strings: \<open>string\<close> (a \<open>char list\<close>). A Go \<open>int\<close> that is only
  stored and printed is an \<open>int\<close>. A \<open>time.Time\<close> is an instant counted from the zero value
  \<open>time.Time{}\<close>; pointers that may be nil are options.
\<close>

datatype gotime = Instant int

definition zeroTime :: gotime where
  "zeroTime = Instant 0"

text \<open>Errors. \<open>Wrap msg e\<close> is \<open>fmt.Errorf(msg + ": %w", e)\<close>, \<open>Errorf msg\<close> is
  \<open>fmt.Errorf(msg)\<close>, \<open>AzCommandFailed d\<close> is the error built by \<open>runAzCommand\<close> from the
  failure of the process (\<open>d\<close> stands for the failure and the text of stderr), \<open>JsonError\<close>
  is an error returned by package encoding/json.\<close>

datatype error =
    AzCommandFailed string
  | JsonError
  | Errorf string
  | Wrap string error

record RoleDefinitionInfo =
  rd_ID :: string
  rd_DisplayName :: string
  rd_Type :: string

record ScopeInfo =
  sc_ID :: string
  sc_DisplayName :: string
  sc_Type :: string

record PrincipalInfo =
  pr_ID :: string
  pr_DisplayName :: string
  pr_Email :: string
  pr_Type :: string

text \<open>struct ExpandedProperties: fields RoleDefinition, Scope, Principal.\<close>

record ExpandedProperties =
  ep_RoleDefinition :: RoleDefinitionInfo
  ep_Scope :: ScopeInfo
  ep_Principal :: PrincipalInfo

text \<open>struct EligibleRole; its field \<open>ExpandedProperties\<close> is \<open>ExpandedProps\<close> here, the
  name of the record type above being taken.\<close>

record EligibleRole =
  ID :: string
  RoleDefinitionID :: string
  RoleName :: string
  Scope :: string
  ScopeName :: string
  ScopeType :: string
  PrincipalID :: string
  Status :: string
  MemberType :: string
  StartDateTime :: gotime
  EndDateTime :: "gotime option"
  MaxDuration :: int
  EligibilityID :: string
  ExpandedProps :: "ExpandedProperties option"

record ActivationRequest =
  Role :: EligibleRole
  Duration :: int
  Justification :: string
  TicketNumber :: string
  TicketSystem :: string

text \<open>One element of \<open>roleEligibilityScheduleInstancesResponse.Value\<close>; the fields of the
  nested struct \<open>Properties\<close> carry the prefix \<open>prop_\<close>.\<close>

record instanceItem =
  item_ID :: string
  item_Name :: string
  item_Type :: string
  prop_RoleDefinitionID :: string
  prop_Scope :: string
  prop_PrincipalID :: string
  prop_Status :: string
  prop_MemberType :: string
  prop_StartDateTime :: string
  prop_EndDateTime :: "string option"
  prop_ExpandedProperties :: "ExpandedProperties option"

record roleEligibilityScheduleInstancesResponse =
  Value :: "instanceItem list"
  NextLink :: string

record subscription =
  sub_ID :: string
  sub_Name :: string

text \<open>One element of the anonymous response struct of \<open>getEligibilityScheduleID\<close>.\<close>

record scheduleItem =
  sched_ID :: string
  sched_Name :: string

text \<open>The request body is a \<open>map[string]interface{}\<close> whose values are strings and
  further maps.\<close>

datatype jvalue = JString string | JObject "string \<Rightarrow> jvalue option"

fun field :: "jvalue \<Rightarrow> string \<Rightarrow> jvalue option" where
  "field (JObject m) k = m k"
| "field (JString s) k = None"

section \<open>The outside world\<close>

text \<open>
  The trace is the list of the argument vectors of the \<open>az\<close> processes started so far.
  What a process prints may depend on everything done before, so the executor reads the
  trace. The functions of the Go standard library and of package uuid that the code calls
  and that are not part of this repository are fields of the environment.
\<close>

type_synonym trace = "string list list"

record env =
  az :: "trace \<Rightarrow> string list \<Rightarrow> string + string"
  unmarshal_instances :: "string \<Rightarrow> roleEligibilityScheduleInstancesResponse option"
  unmarshal_subscriptions :: "string \<Rightarrow> subscription list option"
  unmarshal_schedules :: "string \<Rightarrow> scheduleItem list option"
  json_Marshal :: "jvalue \<Rightarrow> string option"
  time_Parse_RFC3339 :: "string \<Rightarrow> gotime option"
  time_Now :: "trace \<Rightarrow> gotime"
  time_UTC_Format_RFC3339 :: "gotime \<Rightarrow> string"
  uuid_New_String :: "trace \<Rightarrow> string"
  strings_TrimSpace :: "string \<Rightarrow> string"

text \<open>\<open>runAzCommand\<close> (cli.go): run \<open>az args...\<close>; a failure of the process is an
  error, otherwise standard output is returned.\<close>

definition runAzCommand :: "env \<Rightarrow> string list \<Rightarrow> trace \<Rightarrow> (error + string) \<times> trace" where
  "runAzCommand E args tr =
     (case az E tr args of
        Inl d \<Rightarrow> (Inl (AzCommandFailed d), tr @ [args])
      | Inr out \<Rightarrow> (Inr out, tr @ [args]))"

section \<open>String helpers\<close>

text \<open>\<open>strings.Split(s, sep)\<close> for a separator of one byte: the pieces between the
  occurrences of the separator; never empty (\<open>Split("", "/")\<close> is \<open>[""]\<close>).\<close>

fun strings_Split :: "string \<Rightarrow> char \<Rightarrow> string list" where
  "strings_Split [] sep = [[]]"
| "strings_Split (c # cs) sep =
     (if c = sep then [] # strings_Split cs sep
      else (case strings_Split cs sep of
              [] \<Rightarrow> [[c]]
            | p # ps \<Rightarrow> (c # p) # ps))"

text \<open>\<open>strings.Contains(s, substr)\<close>.\<close>

fun strings_Contains :: "string \<Rightarrow> string \<Rightarrow> bool" where
  "strings_Contains [] sub = (sub = [])"
| "strings_Contains (c # cs) sub = (prefix sub (c # cs) \<or> strings_Contains cs sub)"

definition extractLastSegment :: "string \<Rightarrow> string" where
  "extractLastSegment path =
     (let parts = strings_Split path CHR ''/'' in
      if length parts > 0 then parts ! (length parts - 1) else path)"

text \<open>The loop of \<open>extractScopeName\<close> over \<open>parts\<close>, from index \<open>i\<close> on; \<open>rest\<close> is
  \<open>parts[i:]\<close>, so \<open>i+1 < len(parts)\<close> says that \<open>rest\<close> has a second element.\<close>

fun extractScopeName_loop :: "string list \<Rightarrow> string option" where
  "extractScopeName_loop [] = None"
| "extractScopeName_loop [part] = None"
| "extractScopeName_loop (part # nxt # rest) =
     (if part = ''subscriptions'' then Some nxt
      else if part = ''resourceGroups'' then Some nxt
      else if part = ''managementGroups'' then Some nxt
      else extractScopeName_loop (nxt # rest))"

definition extractScopeName :: "string \<Rightarrow> string" where
  "extractScopeName scope =
     (case extractScopeName_loop (strings_Split scope CHR ''/'') of
        Some name \<Rightarrow> name
      | None \<Rightarrow> scope)"

definition detectScopeType :: "string \<Rightarrow> string" where
  "detectScopeType scope =
     (if strings_Contains scope ''/resourceGroups/'' then ''resourceGroup''
      else if strings_Contains scope ''/managementGroups/'' then ''managementGroup''
      else if strings_Contains scope ''/subscriptions/'' then ''subscription''
      else ''unknown'')"

section \<open>Fetching eligible roles\<close>

text \<open>The body of the inner loop of \<open>fetchEligibleRoles\<close>: one item of the page becomes
  one role.\<close>

definition mkEligibleRole :: "env \<Rightarrow> instanceItem \<Rightarrow> EligibleRole" where
  "mkEligibleRole E item =
     \<lparr> ID = item_ID item,
       RoleDefinitionID = prop_RoleDefinitionID item,
       RoleName =
         (case prop_ExpandedProperties item of
            Some ep \<Rightarrow> rd_DisplayName (ep_RoleDefinition ep)
          | None \<Rightarrow> extractLastSegment (prop_RoleDefinitionID item)),
       Scope = prop_Scope item,
       ScopeName =
         (case prop_ExpandedProperties item of
            Some ep \<Rightarrow> sc_DisplayName (ep_Scope ep)
          | None \<Rightarrow> extractScopeName (prop_Scope item)),
       ScopeType =
         (case prop_ExpandedProperties item of
            Some ep \<Rightarrow> sc_Type (ep_Scope ep)
          | None \<Rightarrow> detectScopeType (prop_Scope item)),
       PrincipalID = prop_PrincipalID item,
       Status = prop_Status item,
       MemberType = prop_MemberType item,
       StartDateTime =
         (if prop_StartDateTime item \<noteq> ''''
          then (case time_Parse_RFC3339 E (prop_StartDateTime item) of
                  Some t \<Rightarrow> t
                | None \<Rightarrow> zeroTime)
          else zeroTime),
       EndDateTime =
         (case prop_EndDateTime item of
            None \<Rightarrow> None
          | Some s \<Rightarrow> (if s \<noteq> '''' then time_Parse_RFC3339 E s else None)),
       MaxDuration = 480,
       EligibilityID = item_ID item,
       ExpandedProps = prop_ExpandedProperties item \<rparr>"

definition restGET :: "string \<Rightarrow> string list" where
  "restGET url = [''rest'', ''--method'', ''GET'', ''--url'', url]"

text \<open>The loop \<open>for url != ""\<close> of \<open>fetchEligibleRoles\<close>, with the variables \<open>url\<close> and
  \<open>allRoles\<close> as arguments. The loop need not end (a page may link to itself), so the result
  is an option: \<open>None\<close> when the loop runs forever.\<close>

partial_function (option) fetchEligibleRoles_loop ::
  "env \<Rightarrow> string \<Rightarrow> EligibleRole list \<Rightarrow> trace \<Rightarrow> ((error + EligibleRole list) \<times> trace) option"
where
  "fetchEligibleRoles_loop E url allRoles tr =
     (if url = '''' then Some (Inr allRoles, tr)
      else (case runAzCommand E (restGET url) tr of
              (Inl err, tr') \<Rightarrow> Some (Inl err, tr')
            | (Inr output, tr') \<Rightarrow>
                (case unmarshal_instances E output of
                   None \<Rightarrow> Some (Inl (Wrap ''failed to parse response'' JsonError), tr')
                 | Some response \<Rightarrow>
                     fetchEligibleRoles_loop E (NextLink response)
                       (allRoles @ map (mkEligibleRole E) (Value response)) tr')))"

declare fetchEligibleRoles_loop.simps [code]

definition fetchEligibleRoles ::
  "env \<Rightarrow> string \<Rightarrow> trace \<Rightarrow> ((error + EligibleRole list) \<times> trace) option" where
  "fetchEligibleRoles E url tr = fetchEligibleRoles_loop E url [] tr"

text \<open>\<open>getSubscriptions\<close>: \<open>az account list\<close>, decoded into \<open>[]subscription\<close>.\<close>

definition getSubscriptions :: "env \<Rightarrow> trace \<Rightarrow> (error + subscription list) \<times> trace" where
  "getSubscriptions E tr =
     (case runAzCommand E
             [''account'', ''list'', ''--query'', ''[].{id:id, name:name}'', ''-o'', ''json''] tr of
        (Inl err, tr') \<Rightarrow> (Inl err, tr')
      | (Inr output, tr') \<Rightarrow>
          (case unmarshal_subscriptions E output of
             None \<Rightarrow> (Inl (Wrap ''failed to parse subscriptions'' JsonError), tr')
           | Some subs \<Rightarrow> (Inr subs, tr')))"

definition instancesQuery :: string where
  "instancesQuery =
     ''/providers/Microsoft.Authorization/roleEligibilityScheduleInstances?api-version=2020-10-01&$filter=asTarget()&$expand=roleDefinition,principal''"

definition getEligibleRolesAtScope ::
  "env \<Rightarrow> string \<Rightarrow> trace \<Rightarrow> ((error + EligibleRole list) \<times> trace) option" where
  "getEligibleRolesAtScope E scope tr =
     fetchEligibleRoles E
       (if scope = '''' then ''https://management.azure.com'' @ instancesQuery
        else ''https://management.azure.com'' @ scope @ instancesQuery) tr"

text \<open>The loop \<open>for _, sub := range subscriptions\<close> of \<open>GetEligibleRoleAssignments\<close>,
  with the variable \<open>allRoles\<close> as an argument.\<close>

fun subscriptionsLoop ::
  "env \<Rightarrow> subscription list \<Rightarrow> EligibleRole list \<Rightarrow> trace \<Rightarrow> (EligibleRole list \<times> trace) option"
where
  "subscriptionsLoop E [] allRoles tr = Some (allRoles, tr)"
| "subscriptionsLoop E (sub # subs) allRoles tr =
     (case getEligibleRolesAtScope E (''/subscriptions/'' @ sub_ID sub) tr of
        None \<Rightarrow> None
      | Some (Inl err, tr') \<Rightarrow> subscriptionsLoop E subs allRoles tr'
      | Some (Inr roles, tr') \<Rightarrow> subscriptionsLoop E subs (allRoles @ roles) tr')"

text \<open>The first part of \<open>GetEligibleRoleAssignments\<close>, up to the end of the loop over the
  subscriptions: the value of \<open>allRoles\<close> there, or the error returned before.\<close>

definition collectAllRoles ::
  "env \<Rightarrow> trace \<Rightarrow> ((error + EligibleRole list) \<times> trace) option" where
  "collectAllRoles E tr =
     (case getSubscriptions E tr of
        (Inl err, tr1) \<Rightarrow> Some (Inl (Wrap ''failed to get subscriptions'' err), tr1)
      | (Inr subscriptions, tr1) \<Rightarrow>
          (case getEligibleRolesAtScope E '''' tr1 of
             None \<Rightarrow> None
           | Some (res, tr2) \<Rightarrow>
               (case subscriptionsLoop E subscriptions
                       (case res of Inr roles \<Rightarrow> roles | Inl err \<Rightarrow> []) tr2 of
                  None \<Rightarrow> None
                | Some (allRoles, tr3) \<Rightarrow> Some (Inr allRoles, tr3))))"

text \<open>The deduplication loop, with the map \<open>seen\<close> and the slice \<open>uniqueRoles\<close> as
  arguments; a key that is not in a \<open>map[string]bool\<close> reads as false.\<close>

fun dedup_loop ::
  "EligibleRole list \<Rightarrow> (string \<Rightarrow> bool option) \<Rightarrow> EligibleRole list \<Rightarrow> EligibleRole list"
where
  "dedup_loop [] seen uniqueRoles = uniqueRoles"
| "dedup_loop (role # rest) seen uniqueRoles =
     (if \<not> (case seen (ID role) of None \<Rightarrow> False | Some b \<Rightarrow> b)
      then dedup_loop rest (seen(ID role \<mapsto> True)) (uniqueRoles @ [role])
      else dedup_loop rest seen uniqueRoles)"

definition uniqueRoles :: "EligibleRole list \<Rightarrow> EligibleRole list" where
  "uniqueRoles allRoles = dedup_loop allRoles Map.empty []"

definition GetEligibleRoleAssignments ::
  "env \<Rightarrow> trace \<Rightarrow> ((error + EligibleRole list) \<times> trace) option" where
  "GetEligibleRoleAssignments E tr =
     (case collectAllRoles E tr of
        None \<Rightarrow> None
      | Some (Inl err, tr') \<Rightarrow> Some (Inl err, tr')
      | Some (Inr allRoles, tr') \<Rightarrow> Some (Inr (uniqueRoles allRoles), tr'))"

section \<open>Active assignments\<close>

text \<open>The body of the loop of \<open>GetActiveRoleAssignments\<close>; the fields the composite
  literal does not name have their zero values.\<close>

definition mkActiveRole :: "instanceItem \<Rightarrow> EligibleRole" where
  "mkActiveRole item =
     \<lparr> ID = item_ID item,
       RoleDefinitionID = prop_RoleDefinitionID item,
       RoleName =
         (case prop_ExpandedProperties item of
            Some ep \<Rightarrow> rd_DisplayName (ep_RoleDefinition ep)
          | None \<Rightarrow> ''''),
       Scope = prop_Scope item,
       ScopeName =
         (case prop_ExpandedProperties item of
            Some ep \<Rightarrow> sc_DisplayName (ep_Scope ep)
          | None \<Rightarrow> ''''),
       ScopeType =
         (case prop_ExpandedProperties item of
            Some ep \<Rightarrow> sc_Type (ep_Scope ep)
          | None \<Rightarrow> ''''),
       PrincipalID = prop_PrincipalID item,
       Status = prop_Status item,
       MemberType = prop_MemberType item,
       StartDateTime = zeroTime,
       EndDateTime = None,
       MaxDuration = 0,
       EligibilityID = '''',
       ExpandedProps = prop_ExpandedProperties item \<rparr>"

definition activeInstancesURL :: string where
  "activeInstancesURL =
     ''https://management.azure.com/providers/Microsoft.Authorization/roleAssignmentScheduleInstances?api-version=2020-10-01&$filter=asTarget()&$expand=roleDefinition,principal''"

definition GetActiveRoleAssignments ::
  "env \<Rightarrow> trace \<Rightarrow> (error + EligibleRole list) \<times> trace" where
  "GetActiveRoleAssignments E tr =
     (case runAzCommand E (restGET activeInstancesURL) tr of
        (Inl err, tr') \<Rightarrow> (Inl err, tr')
      | (Inr output, tr') \<Rightarrow>
          (case unmarshal_instances E output of
             None \<Rightarrow> (Inl (Wrap ''failed to parse response'' JsonError), tr')
           | Some response \<Rightarrow> (Inr (map mkActiveRole (Value response)), tr')))"

section \<open>Activation\<close>

text \<open>\<open>GetCurrentUserPrincipalID\<close> (cli.go).\<close>

definition GetCurrentUserPrincipalID :: "env \<Rightarrow> trace \<Rightarrow> (error + string) \<times> trace" where
  "GetCurrentUserPrincipalID E tr =
     (case runAzCommand E
             [''ad'', ''signed-in-user'', ''show'', ''--query'', ''id'', ''--output'', ''tsv''] tr of
        (Inl err, tr') \<Rightarrow> (Inl (Wrap ''failed to get current user principal ID'' err), tr')
      | (Inr output, tr') \<Rightarrow> (Inr (strings_TrimSpace E output), tr'))"

text \<open>The URL of \<open>getEligibilityScheduleID\<close>; \<open>CHR 0x27\<close> is the single quote.\<close>

definition schedulesURL :: "string \<Rightarrow> string \<Rightarrow> string \<Rightarrow> string" where
  "schedulesURL scope roleDefinitionID principalID =
     ''https://management.azure.com'' @ scope @
     ''/providers/Microsoft.Authorization/roleEligibilitySchedules?api-version=2020-10-01&$filter=principalId eq '' @
     [CHR 0x27] @ principalID @ [CHR 0x27] @ '' and roleDefinitionId eq '' @
     [CHR 0x27] @ roleDefinitionID @ [CHR 0x27]"

definition getEligibilityScheduleID ::
  "env \<Rightarrow> string \<Rightarrow> string \<Rightarrow> string \<Rightarrow> trace \<Rightarrow> (error + string) \<times> trace" where
  "getEligibilityScheduleID E scope roleDefinitionID principalID tr =
     (case runAzCommand E (restGET (schedulesURL scope roleDefinitionID principalID)) tr of
        (Inl err, tr') \<Rightarrow> (Inl (Wrap ''failed to query eligibility schedules'' err), tr')
      | (Inr output, tr') \<Rightarrow>
          (case unmarshal_schedules E output of
             None \<Rightarrow> (Inl (Wrap ''failed to parse eligibility schedules'' JsonError), tr')
           | Some val \<Rightarrow>
               (if length val = 0 then (Inl (Errorf ''no eligibility schedule found''), tr')
                else (Inr (sched_Name (val ! 0)), tr'))))"

text \<open>The part of \<open>ActivateRole\<close> that sets \<open>eligibilityScheduleID\<close>: the query, and the
  instance name when the query returns an error.\<close>

definition linkedScheduleID :: "env \<Rightarrow> ActivationRequest \<Rightarrow> trace \<Rightarrow> string \<times> trace" where
  "linkedScheduleID E req tr =
     (case getEligibilityScheduleID E (Scope (Role req)) (RoleDefinitionID (Role req))
             (PrincipalID (Role req)) tr of
        (Inl err, tr') \<Rightarrow> (extractLastSegment (ID (Role req)), tr')
      | (Inr eligibilityScheduleID, tr') \<Rightarrow> (eligibilityScheduleID, tr'))"

text \<open>\<open>fmt.Sprintf("%d", n)\<close>: the decimal digits, after a minus sign when \<open>n\<close> is
  negative.\<close>

fun decimal :: "nat \<Rightarrow> string" where
  "decimal n =
     (if n < 10 then [''0123456789'' ! n]
      else decimal (n div 10) @ [''0123456789'' ! (n mod 10)])"

declare decimal.simps [simp del]

definition sprintf_d :: "int \<Rightarrow> string" where
  "sprintf_d n = (if n < 0 then ''-'' @ decimal (nat (- n)) else decimal (nat n))"

text \<open>The map \<open>ticketInfo\<close> of \<open>ActivateRole\<close>.\<close>

definition ticketInfo :: "ActivationRequest \<Rightarrow> (string \<Rightarrow> jvalue option)" where
  "ticketInfo req =
     (let t0 = Map.empty;
          t1 = (if TicketNumber req \<noteq> ''''
                then t0(''ticketNumber'' \<mapsto> JString (TicketNumber req)) else t0);
          t2 = (if TicketSystem req \<noteq> ''''
                then t1(''ticketSystem'' \<mapsto> JString (TicketSystem req)) else t1)
      in t2)"

text \<open>The map \<open>requestBody\<close> of \<open>ActivateRole\<close> as it is handed to \<open>json.Marshal\<close>, from
  the principal of the signed-in user, the schedule identifier, the formatted start time and
  the request.\<close>

definition requestBody :: "string \<Rightarrow> string \<Rightarrow> string \<Rightarrow> ActivationRequest \<Rightarrow> jvalue" where
  "requestBody currentUserPrincipalID eligibilityScheduleID startDateTime req =
     (let properties =
            [''principalId'' \<mapsto> JString currentUserPrincipalID,
             ''roleDefinitionId'' \<mapsto> JString (RoleDefinitionID (Role req)),
             ''requestType'' \<mapsto> JString ''SelfActivate'',
             ''linkedRoleEligibilityScheduleId'' \<mapsto> JString eligibilityScheduleID,
             ''justification'' \<mapsto> JString (Justification req),
             ''scheduleInfo'' \<mapsto> JObject
                [''startDateTime'' \<mapsto> JString startDateTime,
                 ''expiration'' \<mapsto> JObject
                    [''type'' \<mapsto> JString ''AfterDuration'',
                     ''duration'' \<mapsto> JString (''PT'' @ sprintf_d (Duration req) @ ''M'')]]];
          properties' =
            (if TicketNumber req \<noteq> '''' \<or> TicketSystem req \<noteq> ''''
             then properties(''ticketInfo'' \<mapsto> JObject (ticketInfo req))
             else properties)
      in JObject [''properties'' \<mapsto> JObject properties'])"

definition restPUT :: "string \<Rightarrow> string \<Rightarrow> string list" where
  "restPUT url body = [''rest'', ''--method'', ''PUT'', ''--url'', url, ''--body'', body]"

definition activationURL :: "string \<Rightarrow> string \<Rightarrow> string" where
  "activationURL scope requestID =
     ''https://management.azure.com'' @ scope @
     ''/providers/Microsoft.Authorization/roleAssignmentScheduleRequests/'' @ requestID @
     ''?api-version=2020-10-01''"

text \<open>\<open>ActivateRole\<close> up to the call of \<open>json.Marshal\<close>: the error returned before, or
  the value of \<open>requestBody\<close> there. The calls of \<open>debugf\<close> only write to stderr and are
  left out.\<close>

definition activationBody ::
  "env \<Rightarrow> ActivationRequest \<Rightarrow> trace \<Rightarrow> (error + jvalue) \<times> trace" where
  "activationBody E req tr =
     (case GetCurrentUserPrincipalID E tr of
        (Inl err, tr1) \<Rightarrow> (Inl (Wrap ''failed to get current user principal ID'' err), tr1)
      | (Inr currentUserPrincipalID, tr1) \<Rightarrow>
          (case linkedScheduleID E req tr1 of
             (eligibilityScheduleID, tr2) \<Rightarrow>
               (Inr (requestBody currentUserPrincipalID eligibilityScheduleID
                       (time_UTC_Format_RFC3339 E (time_Now E tr2)) req), tr2)))"

text \<open>\<open>ActivateRole\<close>: the returned error (\<open>None\<close> is nil) and the trace.\<close>

definition ActivateRole :: "env \<Rightarrow> ActivationRequest \<Rightarrow> trace \<Rightarrow> error option \<times> trace" where
  "ActivateRole E req tr =
     (let requestID = uuid_New_String E tr in
      case activationBody E req tr of
        (Inl err, tr1) \<Rightarrow> (Some err, tr1)
      | (Inr body, tr2) \<Rightarrow>
          (case json_Marshal E body of
             None \<Rightarrow> (Some (Wrap ''failed to marshal request body'' JsonError), tr2)
           | Some bodyJSON \<Rightarrow>
               (case runAzCommand E
                       (restPUT (activationURL (Scope (Role req)) requestID) bodyJSON) tr2 of
                  (Inl err, tr3) \<Rightarrow> (Some (Wrap ''activation request failed'' err), tr3)
                | (Inr output, tr3) \<Rightarrow> (None, tr3))))"

section \<open>Role selection (package ui, selector.go)\<close>

text \<open>What \<open>SelectRole\<close> reads of the final model of the list program.\<close>

record selectorModel =
  selected :: "EligibleRole option"
  cancelled :: bool

text \<open>The terminal: \<open>SuccessStyle.Render\<close>, and the run of the interactive list program
  on the candidates, which returns an error or its final model, or never returns
  (\<open>None\<close>).\<close>

record terminal =
  SuccessStyle_Render :: "string \<Rightarrow> string"
  program_Run :: "EligibleRole list \<Rightarrow> (error + selectorModel) option"

datatype ui_event = Println string | RunProgram "EligibleRole list"

text \<open>\<open>SelectRole\<close>: the result (\<open>None\<close> when the program never returns) and what was
  done on the terminal.\<close>

definition SelectRole ::
  "terminal \<Rightarrow> EligibleRole list \<Rightarrow> bool \<Rightarrow> (error + EligibleRole) option \<times> ui_event list" where
  "SelectRole T roles nonInteractive =
     (if length roles = 0 then (Some (Inl (Errorf ''no eligible roles available'')), [])
      else if length roles = 1 then
        (Some (Inr (roles ! 0)),
         [Println (SuccessStyle_Render T
            (''Auto-selecting the only eligible role: '' @ RoleName (roles ! 0) @ '' on '' @
             ScopeName (roles ! 0)))])
      else if nonInteractive then
        (Some (Inl (Errorf ''multiple roles available but running in non-interactive mode'')), [])
      else
        (case program_Run T roles of
           None \<Rightarrow> (None, [RunProgram roles])
         | Some (Inl err) \<Rightarrow> (Some (Inl (Wrap ''selector failed'' err)), [RunProgram roles])
         | Some (Inr result) \<Rightarrow>
             (if cancelled result then (Some (Inl (Errorf ''selection cancelled'')), [RunProgram roles])
              else (case selected result of
                      None \<Rightarrow> (Some (Inl (Errorf ''no role selected'')), [RunProgram roles])
                    | Some r \<Rightarrow> (Some (Inr r), [RunProgram roles])))))"

section \<open>Notions of the specification\<close>

text \<open>A chain of pages from \<open>url\<close> on, for an executor in the state \<open>tr\<close>: each pair is
  the URL requested and the page the response decodes to; the first URL is \<open>url\<close>, each
  further URL is the \<open>nextLink\<close> of the page before, and the last page has no
  \<open>nextLink\<close>.\<close>

fun page_chain ::
  "env \<Rightarrow> trace \<Rightarrow> string \<Rightarrow> (string \<times> roleEligibilityScheduleInstancesResponse) list \<Rightarrow> bool"
where
  "page_chain E tr url [] = (url = '''')"
| "page_chain E tr url ((u, page) # rest) =
     (url \<noteq> '''' \<and> u = url \<and>
      (case az E tr (restGET url) of
         Inl d \<Rightarrow> False
       | Inr out \<Rightarrow> unmarshal_instances E out = Some page) \<and>
      page_chain E (tr @ [restGET url]) (NextLink page) rest)"

text \<open>The names of the path segments that introduce a scope.\<close>

definition scopeKeys :: "string set" where
  "scopeKeys = {''subscriptions'', ''resourceGroups'', ''managementGroups''}"

text \<open>The scope of a subscription, and the rows of the scopes that succeeded: the scopes
  are queried one after the other, a scope whose query fails adds no row.\<close>

definition subscriptionScope :: "subscription \<Rightarrow> string" where
  "subscriptionScope sub = ''/subscriptions/'' @ sub_ID sub"

fun succeededRows ::
  "env \<Rightarrow> string list \<Rightarrow> trace \<Rightarrow> (EligibleRole list \<times> trace) option" where
  "succeededRows E [] tr = Some ([], tr)"
| "succeededRows E (scope # scopes) tr =
     (case getEligibleRolesAtScope E scope tr of
        None \<Rightarrow> None
      | Some (res, tr') \<Rightarrow>
          (case succeededRows E scopes tr' of
             None \<Rightarrow> None
           | Some (rows, tr'') \<Rightarrow>
               Some ((case res of Inr roles \<Rightarrow> roles | Inl err \<Rightarrow> []) @ rows, tr'')))"

text \<open>The roles whose identifier is neither in \<open>S\<close> nor carried by an earlier role of the
  list, in the order of the list.\<close>

fun firstSeen :: "string set \<Rightarrow> EligibleRole list \<Rightarrow> EligibleRole list" where
  "firstSeen S [] = []"
| "firstSeen S (r # rs) =
     (if ID r \<in> S then firstSeen S rs else r # firstSeen (insert (ID r) S) rs)"

text \<open>The value of a string of decimal digits.\<close>

definition digitsValue :: "string \<Rightarrow> nat" where
  "digitsValue s = foldl (\<lambda>a c. 10 * a + (of_char c - 48)) 0 s"

section \<open>A sample tenant\<close>

text \<open>
  A tenant with the subscriptions A, B and C for the examples. The tenant root returns the
  instance \<open>/i/a\<close>; subscription A returns three pages (\<open>/i/a\<close> and \<open>/i/b\<close>, then \<open>/i/b\<close>,
  then \<open>/i/c\<close>); the query on subscription B is refused; subscription C returns
  \<open>/i/d\<close>. The eligibility belongs to the group \<open>group-1\<close>, the signed-in user is
  \<open>user-1\<close>. There is one eligibility schedule, for the role definition \<open>reader\<close>.
\<close>

definition sampleItem :: "string \<Rightarrow> string \<Rightarrow> instanceItem" where
  "sampleItem i roleDefinition =
     \<lparr> item_ID = i, item_Name = extractLastSegment i, item_Type = '''',
       prop_RoleDefinitionID = ''/providers/Microsoft.Authorization/roleDefinitions/'' @ roleDefinition,
       prop_Scope = ''/subscriptions/A/resourceGroups/rg1'',
       prop_PrincipalID = ''group-1'',
       prop_Status = ''Provisioned'',
       prop_MemberType = ''Group'',
       prop_StartDateTime = ''2024-01-01T00:00:00Z'',
       prop_EndDateTime = Some ''tomorrow'',
       prop_ExpandedProperties = None \<rparr>"

definition sampleExpanded :: ExpandedProperties where
  "sampleExpanded =
     \<lparr> ep_RoleDefinition = \<lparr> rd_ID = ''r'', rd_DisplayName = ''Reader'', rd_Type = ''BuiltInRole'' \<rparr>,
       ep_Scope = \<lparr> sc_ID = ''s'', sc_DisplayName = ''Production'', sc_Type = ''subscription'' \<rparr>,
       ep_Principal = \<lparr> pr_ID = ''p'', pr_DisplayName = ''Ops'', pr_Email = '''', pr_Type = ''Group'' \<rparr> \<rparr>"

text \<open>An item whose timestamps are not RFC 3339, and one with expanded properties.\<close>

definition sampleItemMalformed :: instanceItem where
  "sampleItemMalformed = (sampleItem ''/i/m'' ''reader'') \<lparr> prop_StartDateTime := ''yesterday'' \<rparr>"

definition sampleItemExpanded :: instanceItem where
  "sampleItemExpanded =
     (sampleItem ''/i/x'' ''reader'')
       \<lparr> prop_EndDateTime := Some ''2024-01-01T00:00:00Z'',
         prop_ExpandedProperties := Some sampleExpanded \<rparr>"

definition samplePage ::"string \<Rightarrow> roleEligibilityScheduleInstancesResponse option" where
  "samplePage out =
     (if out = ''T'' then Some \<lparr> Value = [sampleItem ''/i/a'' ''reader''], NextLink = '''' \<rparr>
      else if out = ''A1'' then
        Some \<lparr> Value = [sampleItem ''/i/a'' ''reader'', sampleItem ''/i/b'' ''reader''],
               NextLink = ''next-A2'' \<rparr>
      else if out = ''A2'' then Some \<lparr> Value = [sampleItem ''/i/b'' ''reader''], NextLink = ''next-A3'' \<rparr>
      else if out = ''A3'' then Some \<lparr> Value = [sampleItem ''/i/c'' ''owner''], NextLink = '''' \<rparr>
      else if out = ''C1'' then Some \<lparr> Value = [sampleItem ''/i/d'' ''reader''], NextLink = '''' \<rparr>
      else None)"

definition sampleAz :: "trace \<Rightarrow> string list \<Rightarrow> string + string" where
  "sampleAz tr args =
     (if args = [''account'', ''list'', ''--query'', ''[].{id:id, name:name}'', ''-o'', ''json'']
      then Inr ''SUBS''
      else if args = [''ad'', ''signed-in-user'', ''show'', ''--query'', ''id'', ''--output'', ''tsv'']
      then Inr (''user-1'' @ [CHR 0x0A])
      else if args = restGET (''https://management.azure.com'' @ instancesQuery) then Inr ''T''
      else if args = restGET (''https://management.azure.com/subscriptions/A'' @ instancesQuery)
      then Inr ''A1''
      else if args = restGET ''next-A2'' then Inr ''A2''
      else if args = restGET ''next-A3'' then Inr ''A3''
      else if args = restGET (''https://management.azure.com/subscriptions/C'' @ instancesQuery)
      then Inr ''C1''
      else if args = restGET (schedulesURL ''/subscriptions/A/resourceGroups/rg1''
                ''/providers/Microsoft.Authorization/roleDefinitions/reader'' ''group-1'')
      then Inr ''SCHEDULES''
      else if args = restGET (schedulesURL ''/subscriptions/A/resourceGroups/rg1''
                ''/providers/Microsoft.Authorization/roleDefinitions/owner'' ''group-1'')
      then Inr ''NONE''
      else if args = restGET activeInstancesURL then Inr ''T''
      else if take 3 args = [''rest'', ''--method'', ''PUT''] then Inr ''{}''
      else Inl ''AuthorizationFailed'')"

text \<open>A stand-in for \<open>json.Marshal\<close> that keeps the principal and the duration of the
  body.\<close>

definition sampleMarshal :: "jvalue \<Rightarrow> string option" where
  "sampleMarshal body =
     (case field body ''properties'' of
        None \<Rightarrow> None
      | Some props \<Rightarrow>
          (case (field props ''principalId'', field props ''scheduleInfo'') of
             (Some (JString p), Some info) \<Rightarrow>
               (case field info ''expiration'' of
                  Some expiration \<Rightarrow>
                    (case field expiration ''duration'' of
                       Some (JString d) \<Rightarrow> Some (p @ '' '' @ d)
                     | _ \<Rightarrow> None)
                | None \<Rightarrow> None)
           | _ \<Rightarrow> None))"

definition sampleEnv :: env where
  "sampleEnv =
     \<lparr> az = sampleAz,
       unmarshal_instances = samplePage,
       unmarshal_subscriptions =
         (\<lambda>out. if out = ''SUBS''
                 then Some [\<lparr> sub_ID = ''A'', sub_Name = ''a'' \<rparr>,
                            \<lparr> sub_ID = ''B'', sub_Name = ''b'' \<rparr>,
                            \<lparr> sub_ID = ''C'', sub_Name = ''c'' \<rparr>]
                 else None),
       unmarshal_schedules =
         (\<lambda>out. if out = ''SCHEDULES''
                 then Some [\<lparr> sched_ID = ''/subscriptions/A/schedules/sched-1'',
                              sched_Name = ''sched-1'' \<rparr>]
                 else if out = ''NONE'' then Some []
                 else None),
       json_Marshal = sampleMarshal,
       time_Parse_RFC3339 =
         (\<lambda>s. if s = ''2024-01-01T00:00:00Z'' then Some (Instant 1) else None),
       time_Now = (\<lambda>tr. Instant (int (length tr))),
       time_UTC_Format_RFC3339 = (\<lambda>t. ''2024-06-01T12:00:00Z''),
       uuid_New_String = (\<lambda>tr. ''uuid-1''),
       strings_TrimSpace = takeWhile (\<lambda>c. c \<noteq> CHR 0x0A) \<rparr>"

definition sampleRole :: "string \<Rightarrow> string \<Rightarrow> EligibleRole" where
  "sampleRole i roleDefinition = mkEligibleRole sampleEnv (sampleItem i roleDefinition)"

definition sampleRequest :: "string \<Rightarrow> ActivationRequest" where
  "sampleRequest roleDefinition =
     \<lparr> Role = sampleRole ''/subscriptions/A/instances/inst-7'' roleDefinition,
       Duration = 90,
       Justification = ''deploy'',
       TicketNumber = '''',
       TicketSystem = ''Jira'' \<rparr>"

definition sampleTerminal :: terminal where
  "sampleTerminal =
     \<lparr> SuccessStyle_Render = (\<lambda>s. s),
       program_Run = (\<lambda>roles. None) \<rparr>"

text \<open>What the aggregator does on the sample tenant: the rows it accumulates, the roles it
  returns and the requests it issues.\<close>

definition sampleRows :: "EligibleRole list" where
  "sampleRows =
     [sampleRole ''/i/a'' ''reader'', sampleRole ''/i/a'' ''reader'',
      sampleRole ''/i/b'' ''reader'', sampleRole ''/i/b'' ''reader'',
      sampleRole ''/i/c'' ''owner'', sampleRole ''/i/d'' ''reader'']"

definition sampleUnique :: "EligibleRole list" where
  "sampleUnique =
     [sampleRole ''/i/a'' ''reader'', sampleRole ''/i/b'' ''reader'',
      sampleRole ''/i/c'' ''owner'', sampleRole ''/i/d'' ''reader'']"

definition sampleTrace :: trace where
  "sampleTrace =
     [[''account'', ''list'', ''--query'', ''[].{id:id, name:name}'', ''-o'', ''json''],
      restGET (''https://management.azure.com'' @ instancesQuery),
      restGET (''https://management.azure.com/subscriptions/A'' @ instancesQuery),
      restGET ''next-A2'', restGET ''next-A3'',
      restGET (''https://management.azure.com/subscriptions/B'' @ instancesQuery),
      restGET (''https://management.azure.com/subscriptions/C'' @ instancesQuery)]"

section \<open>Lemmas\<close>

subsection \<open>Strings and paths\<close>

lemma strings_Split_nonempty: "strings_Split s c \<noteq> []"
  by (induction s) (auto split: list.splits)

lemma strings_Split_no_sep: "c \<notin> set s \<Longrightarrow> strings_Split s c = [s]"
  by (induction s) auto

lemma strings_Split_append:
  "strings_Split (p @ c # seg) c = strings_Split p c @ strings_Split seg c"
proof (induction p)
  case Nil
  show ?case by simp
next
  case (Cons a p)
  obtain q qs where "strings_Split p c = q # qs"
    using strings_Split_nonempty [of p c] by (cases "strings_Split p c") auto
  with Cons.IH show ?case by simp
qed

lemma last_strings_Split_append:
  "last (strings_Split (p @ c # seg) c) = last (strings_Split seg c)"
  by (simp add: strings_Split_append strings_Split_nonempty)

lemma extractLastSegment_last: "extractLastSegment s = last (strings_Split s CHR ''/'')"
  by (simp add: extractLastSegment_def Let_def strings_Split_nonempty last_conv_nth)

lemma extractLastSegment_path:
  "CHR ''/'' \<notin> set seg \<Longrightarrow> extractLastSegment (p @ CHR ''/'' # seg) = seg"
  by (simp add: extractLastSegment_last last_strings_Split_append strings_Split_no_sep)

lemma strings_Contains_iff: "strings_Contains s sub \<longleftrightarrow> (\<exists>pre suf. s = pre @ sub @ suf)"
proof (induction s)
  case Nil
  show ?case by auto
next
  case (Cons c cs)
  show ?case
  proof
    assume "strings_Contains (c # cs) sub"
    then consider "prefix sub (c # cs)" | "strings_Contains cs sub" by auto
    then show "\<exists>pre suf. c # cs = pre @ sub @ suf"
    proof cases
      case 1
      then obtain suf where "c # cs = sub @ suf" by (auto simp: prefix_def)
      then have "c # cs = [] @ sub @ suf" by simp
      then show ?thesis by blast
    next
      case 2
      with Cons.IH obtain pre suf where "cs = pre @ sub @ suf" by blast
      then have "c # cs = (c # pre) @ sub @ suf" by simp
      then show ?thesis by blast
    qed
  next
    assume "\<exists>pre suf. c # cs = pre @ sub @ suf"
    then obtain pre suf where e: "c # cs = pre @ sub @ suf" by blast
    show "strings_Contains (c # cs) sub"
    proof (cases pre)
      case Nil
      with e have "prefix sub (c # cs)" by (simp add: prefix_def)
      then show ?thesis by simp
    next
      case (Cons a pre')
      with e have "cs = pre' @ sub @ suf" by simp
      with Cons.IH have "strings_Contains cs sub" by blast
      then show ?thesis by simp
    qed
  qed
qed

lemma extractScopeName_loop_first:
  "k \<in> scopeKeys \<Longrightarrow> set pre \<inter> scopeKeys = {} \<Longrightarrow>
   extractScopeName_loop (pre @ k # v # post) = Some v"
proof (induction pre)
  case Nil
  then show ?case by (auto simp: scopeKeys_def)
next
  case (Cons a pre)
  then have a: "a \<notin> scopeKeys" and IH: "extractScopeName_loop (pre @ k # v # post) = Some v"
    by auto
  obtain x xs where "pre @ k # v # post = x # xs" by (cases pre) auto
  with a IH show ?case by (auto simp: scopeKeys_def)
qed

lemma extractScopeName_loop_none:
  "set (butlast parts) \<inter> scopeKeys = {} \<Longrightarrow> extractScopeName_loop parts = None"
  by (induction parts rule: extractScopeName_loop.induct) (auto simp: scopeKeys_def)

lemma detectScopeType_substring:
  "detectScopeType scope =
     (if (\<exists>pre suf. scope = pre @ ''/resourceGroups/'' @ suf) then ''resourceGroup''
      else if (\<exists>pre suf. scope = pre @ ''/managementGroups/'' @ suf) then ''managementGroup''
      else if (\<exists>pre suf. scope = pre @ ''/subscriptions/'' @ suf) then ''subscription''
      else ''unknown'')"
  unfolding detectScopeType_def strings_Contains_iff ..

lemma extractScopeName_first:
  assumes "strings_Split scope CHR ''/'' = pre @ k # v # post"
    and "k \<in> scopeKeys" and "set pre \<inter> scopeKeys = {}"
  shows "extractScopeName scope = v"
  by (simp add: extractScopeName_def assms extractScopeName_loop_first)

subsection \<open>The aggregator\<close>

lemma subscriptionsLoop_succeededRows:
  "subscriptionsLoop E subs allRoles tr =
     map_option (\<lambda>(rows, tr'). (allRoles @ rows, tr'))
       (succeededRows E (map subscriptionScope subs) tr)"
proof (induction subs arbitrary: allRoles tr)
  case Nil
  show ?case by simp
next
  case (Cons sub subs)
  show ?case
    by (simp add: Cons.IH subscriptionScope_def
        split: option.splits prod.splits sum.splits)
qed

lemma collectAllRoles_succeededRows:
  "collectAllRoles E tr =
     (case getSubscriptions E tr of
        (Inl err, tr1) \<Rightarrow> Some (Inl (Wrap ''failed to get subscriptions'' err), tr1)
      | (Inr subs, tr1) \<Rightarrow>
          map_option (\<lambda>(rows, tr'). (Inr rows, tr'))
            (succeededRows E ('''' # map subscriptionScope subs) tr1))"
  by (simp add: collectAllRoles_def subscriptionsLoop_succeededRows
      split: option.splits prod.splits sum.splits)

lemma GetEligibleRoleAssignments_succeededRows:
  "GetEligibleRoleAssignments E tr =
     (case getSubscriptions E tr of
        (Inl err, tr1) \<Rightarrow> Some (Inl (Wrap ''failed to get subscriptions'' err), tr1)
      | (Inr subs, tr1) \<Rightarrow>
          map_option (\<lambda>(rows, tr'). (Inr (uniqueRoles rows), tr'))
            (succeededRows E ('''' # map subscriptionScope subs) tr1))"
  unfolding GetEligibleRoleAssignments_def collectAllRoles_succeededRows
  by (auto split: option.splits prod.splits sum.splits)

subsection \<open>Deduplication\<close>

lemma dedup_loop_firstSeen:
  "dedup_loop xs seen acc = acc @ firstSeen {k. seen k = Some True} xs"
proof (induction xs arbitrary: seen acc)
  case Nil
  show ?case by simp
next
  case (Cons r rs)
  have eq: "{k. (seen(ID r \<mapsto> True)) k = Some True} = insert (ID r) {k. seen k = Some True}"
    by auto
  show ?case
  proof (cases "seen (ID r) = Some True")
    case True
    then show ?thesis by (simp add: Cons.IH)
  next
    case False
    then have "\<not> (case seen (ID r) of None \<Rightarrow> False | Some b \<Rightarrow> b)"
      by (auto split: option.splits)
    then have "dedup_loop (r # rs) seen acc =
        dedup_loop rs (seen(ID r \<mapsto> True)) (acc @ [r])" by simp
    also have "\<dots> = (acc @ [r]) @ firstSeen (insert (ID r) {k. seen k = Some True}) rs"
      unfolding Cons.IH eq ..
    finally show ?thesis using False by simp
  qed
qed

lemma uniqueRoles_firstSeen: "uniqueRoles xs = firstSeen {} xs"
  by (simp add: uniqueRoles_def dedup_loop_firstSeen)

lemma firstSeen_ids: "ID ` set (firstSeen S xs) = ID ` set xs - S"
  by (induction xs arbitrary: S) auto

lemma firstSeen_distinct: "distinct (map ID (firstSeen S xs))"
proof (induction xs arbitrary: S)
  case Nil
  show ?case by simp
next
  case (Cons r rs)
  have "ID r \<notin> ID ` set (firstSeen (insert (ID r) S) rs)"
    by (simp add: firstSeen_ids)
  with Cons.IH show ?case by simp
qed

lemma firstSeen_subseq: "subseq (firstSeen S xs) xs"
  by (induction xs arbitrary: S) auto

lemma firstSeen_subset: "set (firstSeen S xs) \<subseteq> set xs"
  by (induction xs arbitrary: S) auto

lemma firstSeen_find:
  "r \<in> set (firstSeen S xs) \<Longrightarrow> find (\<lambda>y. ID y = ID r) xs = Some r"
proof (induction xs arbitrary: S)
  case Nil
  then show ?case by simp
next
  case (Cons x xs)
  show ?case
  proof (cases "r = x")
    case True
    then show ?thesis by simp
  next
    case False
    with Cons.prems obtain S' where mem: "r \<in> set (firstSeen S' xs)" and S': "ID x \<in> S'"
      by (auto split: if_splits)
    from mem have "ID r \<in> ID ` set xs - S'"
      using firstSeen_ids [of S' xs] by blast
    with S' have "ID x \<noteq> ID r" by auto
    with Cons.IH [OF mem] show ?thesis by simp
  qed
qed

subsection \<open>Pagination\<close>

lemma fetchEligibleRoles_loop_all:
  assumes ret: "fetchEligibleRoles_loop E url allRoles tr = Some y"
  shows "(\<forall>r\<in>set allRoles. P r) \<longrightarrow> (\<forall>item. P (mkEligibleRole E item)) \<longrightarrow>
   (\<forall>rs. fst y = Inr rs \<longrightarrow> (\<forall>r\<in>set rs. P r))"
proof (induct rule: fetchEligibleRoles_loop.raw_induct)
  case (1 loop E url allRoles tr y)
  show ?case
  proof (cases "url = ''''")
    case True
    with 1(2) show ?thesis by auto
  next
    case False
    show ?thesis
    proof (cases "runAzCommand E (restGET url) tr")
      case (Pair res tr')
      show ?thesis
      proof (cases res)
        case (Inl err)
        with 1(2) False Pair show ?thesis by auto
      next
        case (Inr outp)
        show ?thesis
        proof (cases "unmarshal_instances E outp")
          case None
          with 1(2) False Pair Inr show ?thesis by auto
        next
          case (Some response)
          with 1(2) False Pair Inr have a:
            "loop E (NextLink response) (allRoles @ map (mkEligibleRole E) (Value response)) tr'
               = Some y" by simp
          from 1(1) [OF a] show ?thesis by auto
        qed
      qed
    qed
  qed
qed (rule ret)

lemma getEligibleRolesAtScope_all:
  assumes "getEligibleRolesAtScope E scope tr = Some (Inr rs, tr')"
    and "\<And>item. P (mkEligibleRole E item)"
  shows "\<forall>r\<in>set rs. P r"
  using fetchEligibleRoles_loop_all [of E _ "[]" tr "(Inr rs, tr')" P] assms
  by (simp add: getEligibleRolesAtScope_def fetchEligibleRoles_def split: if_splits)

lemma succeededRows_all:
  assumes "\<And>item. P (mkEligibleRole E item)"
  shows "succeededRows E scopes tr = Some (rows, tr') \<Longrightarrow> \<forall>r\<in>set rows. P r"
proof (induction scopes arbitrary: tr rows tr')
  case Nil
  then show ?case by simp
next
  case (Cons scope scopes)
  from Cons.prems obtain res tr1 rows1 where
    a: "getEligibleRolesAtScope E scope tr = Some (res, tr1)" and
    b: "succeededRows E scopes tr1 = Some (rows1, tr')" and
    c: "rows = (case res of Inr roles \<Rightarrow> roles | Inl err \<Rightarrow> []) @ rows1"
    by (auto split: option.splits prod.splits)
  have "\<forall>r\<in>set (case res of Inr roles \<Rightarrow> roles | Inl err \<Rightarrow> []). P r"
  proof (cases res)
    case (Inl e)
    then show ?thesis by simp
  next
    case (Inr roles)
    with a getEligibleRolesAtScope_all [of E scope tr roles tr1 P] assms
    show ?thesis by simp
  qed
  with Cons.IH [OF b] c show ?case by auto
qed

lemma fetchEligibleRoles_loop_chain:
  "page_chain E tr url pages \<Longrightarrow>
   fetchEligibleRoles_loop E url allRoles tr =
     Some (Inr (allRoles @ concat (map (\<lambda>(u, page). map (mkEligibleRole E) (Value page)) pages)),
           tr @ map (\<lambda>(u, page). restGET u) pages)"
proof (induction pages arbitrary: url allRoles tr)
  case Nil
  then show ?case by (subst fetchEligibleRoles_loop.simps) simp
next
  case (Cons a pages)
  obtain u page where a: "a = (u, page)" by (cases a)
  from Cons.prems a obtain out where
    ne: "url \<noteq> ''''" and u: "u = url" and
    az: "az E tr (restGET url) = Inr out" and
    dec: "unmarshal_instances E out = Some page" and
    rest: "page_chain E (tr @ [restGET url]) (NextLink page) pages"
    by (auto split: sum.splits)
  have step: "fetchEligibleRoles_loop E url allRoles tr =
      fetchEligibleRoles_loop E (NextLink page)
        (allRoles @ map (mkEligibleRole E) (Value page)) (tr @ [restGET url])"
    by (subst fetchEligibleRoles_loop.simps) (simp add: ne runAzCommand_def az dec)
  show ?case
    unfolding step Cons.IH [OF rest] by (simp add: a u)
qed

lemma GetEligibleRoleAssignments_rows:
  assumes "GetEligibleRoleAssignments E tr = Some (Inr rs, tr')"
  shows "\<exists>allRoles. collectAllRoles E tr = Some (Inr allRoles, tr') \<and> rs = uniqueRoles allRoles"
  using assms
  by (auto simp: GetEligibleRoleAssignments_def split: option.splits prod.splits sum.splits)

lemma collectAllRoles_all:
  assumes "collectAllRoles E tr = Some (Inr allRoles, tr')"
    and "\<And>item. P (mkEligibleRole E item)"
  shows "\<forall>r\<in>set allRoles. P r"
proof -
  from assms(1) obtain subs tr1 where
    "succeededRows E ('''' # map subscriptionScope subs) tr1 = Some (allRoles, tr')"
    unfolding collectAllRoles_succeededRows
    by (auto split: prod.splits sum.splits)
  then show ?thesis
    using succeededRows_all [of P E _ tr1 allRoles tr'] assms(2) by blast
qed

subsection \<open>The sample tenant\<close>

lemma sample_getSubscriptions:
  "getSubscriptions sampleEnv [] =
     (Inr [\<lparr> sub_ID = ''A'', sub_Name = ''a'' \<rparr>, \<lparr> sub_ID = ''B'', sub_Name = ''b'' \<rparr>,
           \<lparr> sub_ID = ''C'', sub_Name = ''c'' \<rparr>],
      [[''account'', ''list'', ''--query'', ''[].{id:id, name:name}'', ''-o'', ''json'']])"
  by code_simp

lemma sample_succeededRows:
  "succeededRows sampleEnv
      ['''', ''/subscriptions/A'', ''/subscriptions/B'', ''/subscriptions/C'']
      [[''account'', ''list'', ''--query'', ''[].{id:id, name:name}'', ''-o'', ''json'']] =
     Some (sampleRows, sampleTrace)"
  by code_simp

lemma sample_uniqueRoles: "uniqueRoles sampleRows = sampleUnique"
  by code_simp

lemma sample_collectAllRoles:
  "collectAllRoles sampleEnv [] = Some (Inr sampleRows, sampleTrace)"
  by code_simp

lemma sample_GetEligibleRoleAssignments:
  "GetEligibleRoleAssignments sampleEnv [] = Some (Inr sampleUnique, sampleTrace)"
  by code_simp

lemma sample_GetActiveRoleAssignments:
  "GetActiveRoleAssignments sampleEnv [] =
     (Inr [mkActiveRole (sampleItem ''/i/a'' ''reader'')], [restGET activeInstancesURL])"
  by code_simp

subsection \<open>Activation\<close>

lemma GetCurrentUserPrincipalID_trace:
  "snd (GetCurrentUserPrincipalID E tr) =
     tr @ [[''ad'', ''signed-in-user'', ''show'', ''--query'', ''id'', ''--output'', ''tsv'']]"
  by (simp add: GetCurrentUserPrincipalID_def runAzCommand_def split: sum.splits)

lemma linkedScheduleID_eq:
  "linkedScheduleID E req tr =
     ((case az E tr (restGET (schedulesURL (Scope (Role req)) (RoleDefinitionID (Role req))
                       (PrincipalID (Role req)))) of
         Inl d \<Rightarrow> last (strings_Split (ID (Role req)) CHR ''/'')
       | Inr out \<Rightarrow>
           (case unmarshal_schedules E out of
              None \<Rightarrow> last (strings_Split (ID (Role req)) CHR ''/'')
            | Some [] \<Rightarrow> last (strings_Split (ID (Role req)) CHR ''/'')
            | Some (first # others) \<Rightarrow> sched_Name first)),
      tr @ [restGET (schedulesURL (Scope (Role req)) (RoleDefinitionID (Role req))
                       (PrincipalID (Role req)))])"
  by (simp add: linkedScheduleID_def getEligibilityScheduleID_def runAzCommand_def
      extractLastSegment_last split: sum.splits option.splits list.splits)

lemma activationBody_eq:
  assumes "GetCurrentUserPrincipalID E tr = (Inr p, tr1)"
  shows "activationBody E req tr =
     (Inr (requestBody p (fst (linkedScheduleID E req tr1))
             (time_UTC_Format_RFC3339 E (time_Now E (snd (linkedScheduleID E req tr1)))) req),
      snd (linkedScheduleID E req tr1))"
  by (simp add: activationBody_def assms split: prod.splits)

lemma activationBody_Inr:
  assumes "activationBody E req tr = (Inr body, tr2)"
  shows "\<exists>p sid. body = requestBody p sid (time_UTC_Format_RFC3339 E (time_Now E tr2)) req"
  using assms
  by (auto simp: activationBody_def split: prod.splits sum.splits)

lemma ActivateRole_put:
  assumes "activationBody E req tr = (Inr body, tr2)" and "json_Marshal E body = Some s"
  shows "snd (ActivateRole E req tr) =
     tr2 @ [restPUT (activationURL (Scope (Role req)) (uuid_New_String E tr)) s]"
  by (simp add: ActivateRole_def assms runAzCommand_def Let_def split: sum.splits)

lemma requestBody_properties:
  "\<exists>props. field (requestBody p sid start req) ''properties'' = Some (JObject props) \<and>
     props ''principalId'' = Some (JString p) \<and>
     props ''roleDefinitionId'' = Some (JString (RoleDefinitionID (Role req))) \<and>
     props ''requestType'' = Some (JString ''SelfActivate'') \<and>
     props ''linkedRoleEligibilityScheduleId'' = Some (JString sid) \<and>
     props ''justification'' = Some (JString (Justification req)) \<and>
     props ''scheduleInfo'' = Some (JObject
        [''startDateTime'' \<mapsto> JString start,
         ''expiration'' \<mapsto> JObject
            [''type'' \<mapsto> JString ''AfterDuration'',
             ''duration'' \<mapsto> JString (''PT'' @ sprintf_d (Duration req) @ ''M'')]]) \<and>
     props ''ticketInfo'' =
       (if TicketNumber req \<noteq> '''' \<or> TicketSystem req \<noteq> ''''
        then Some (JObject (ticketInfo req)) else None)"
  by (simp add: requestBody_def Let_def)

lemma schedulesURL_filter:
  "strings_Contains (schedulesURL scope roleDefinitionID principalID)
     (''$filter=principalId eq '' @ [CHR 0x27] @ principalID @ [CHR 0x27])"
proof -
  have "schedulesURL scope roleDefinitionID principalID =
      (''https://management.azure.com'' @ scope @
       ''/providers/Microsoft.Authorization/roleEligibilitySchedules?api-version=2020-10-01&'') @
      (''$filter=principalId eq '' @ [CHR 0x27] @ principalID @ [CHR 0x27]) @
      ('' and roleDefinitionId eq '' @ [CHR 0x27] @ roleDefinitionID @ [CHR 0x27])"
    by (simp add: schedulesURL_def)
  then show ?thesis
    unfolding strings_Contains_iff by blast
qed

subsection \<open>Decimal digits\<close>

lemma digits_table: "\<forall>k\<in>set [0..<10]. of_char (''0123456789'' ! k) = 48 + k"
  by code_simp

lemma decimal_digit:
  assumes "n < 10"
  shows "of_char (''0123456789'' ! n) = 48 + n"
proof -
  from assms have "n \<in> set [0..<10]" by simp
  with digits_table show ?thesis by blast
qed

lemma digitsValue_snoc:
  "digitsValue (s @ [c]) = 10 * digitsValue s + (of_char c - 48)"
  by (simp add: digitsValue_def)

lemma digitsValue_decimal: "digitsValue (decimal n) = n"
proof (induction n rule: decimal.induct)
  case (1 n)
  show ?case
  proof (cases "n < 10")
    case True
    then show ?thesis
      by (subst decimal.simps) (simp add: digitsValue_def decimal_digit)
  next
    case False
    have "digitsValue (decimal n) =
        10 * digitsValue (decimal (n div 10)) + (of_char (''0123456789'' ! (n mod 10)) - 48)"
      using False by (subst decimal.simps) (simp add: digitsValue_snoc)
    also have "\<dots> = 10 * (n div 10) + n mod 10"
      using "1.IH" [OF False] decimal_digit [of "n mod 10"] by simp
    finally show ?thesis by simp
  qed
qed

subsection \<open>An activation on the sample tenant\<close>

lemma sample_whoami:
  "GetCurrentUserPrincipalID sampleEnv [] =
     (Inr ''user-1'', [[''ad'', ''signed-in-user'', ''show'', ''--query'', ''id'', ''--output'', ''tsv'']])"
  by code_simp

lemma sample_linked_reader:
  "linkedScheduleID sampleEnv (sampleRequest ''reader'')
     [[''ad'', ''signed-in-user'', ''show'', ''--query'', ''id'', ''--output'', ''tsv'']] =
   (''sched-1'',
    [[''ad'', ''signed-in-user'', ''show'', ''--query'', ''id'', ''--output'', ''tsv''],
     restGET (schedulesURL ''/subscriptions/A/resourceGroups/rg1''
        ''/providers/Microsoft.Authorization/roleDefinitions/reader'' ''group-1'')])"
  by code_simp

lemma sample_linked_owner:
  "linkedScheduleID sampleEnv (sampleRequest ''owner'')
     [[''ad'', ''signed-in-user'', ''show'', ''--query'', ''id'', ''--output'', ''tsv'']] =
   (''inst-7'',
    [[''ad'', ''signed-in-user'', ''show'', ''--query'', ''id'', ''--output'', ''tsv''],
     restGET (schedulesURL ''/subscriptions/A/resourceGroups/rg1''
        ''/providers/Microsoft.Authorization/roleDefinitions/owner'' ''group-1'')])"
  by code_simp

lemma sample_request_fields:
  "Scope (Role (sampleRequest rd)) = ''/subscriptions/A/resourceGroups/rg1''"
  "RoleDefinitionID (Role (sampleRequest rd)) =
     ''/providers/Microsoft.Authorization/roleDefinitions/'' @ rd"
  "PrincipalID (Role (sampleRequest rd)) = ''group-1''"
  "ID (Role (sampleRequest rd)) = ''/subscriptions/A/instances/inst-7''"
  "Duration (sampleRequest rd) = 90"
  "TicketNumber (sampleRequest rd) = ''''"
  "TicketSystem (sampleRequest rd) = ''Jira''"
  by (simp_all add: sampleRequest_def sampleRole_def mkEligibleRole_def sampleItem_def)

lemma sample_activationBody:
  "activationBody sampleEnv (sampleRequest ''reader'') [] =
     (Inr (requestBody ''user-1'' ''sched-1'' ''2024-06-01T12:00:00Z'' (sampleRequest ''reader'')),
      [[''ad'', ''signed-in-user'', ''show'', ''--query'', ''id'', ''--output'', ''tsv''],
       restGET (schedulesURL ''/subscriptions/A/resourceGroups/rg1''
          ''/providers/Microsoft.Authorization/roleDefinitions/reader'' ''group-1'')])"
proof -
  have fmt: "time_UTC_Format_RFC3339 sampleEnv t = ''2024-06-01T12:00:00Z''" for t
    by (simp add: sampleEnv_def)
  show ?thesis
    unfolding activationBody_eq [OF sample_whoami] sample_linked_reader fmt by simp
qed

section \<open>Claims\<close>

text \<open>
  C5. For every scope query the aggregator follows the continuation link until it is empty
  and accumulates the rows of every page: for a chain of pages in which each \<open>nextLink\<close> is
  the URL of the next page and the last page has none, \<open>fetchEligibleRoles\<close> returns the
  rows of all pages in order and issues exactly one request per page, so exactly 3 requests
  for a chain of 3 pages.
\<close>

theorem fetchEligibleRoles_follows_nextLink:
  assumes "page_chain E tr url pages"
  shows "\<exists>tr'. fetchEligibleRoles E url tr =
           Some (Inr (concat (map (\<lambda>(u, page). map (mkEligibleRole E) (Value page)) pages)), tr') \<and>
         tr' = tr @ map (\<lambda>(u, page). restGET u) pages \<and>
         length tr' = length tr + length pages"
  using fetchEligibleRoles_loop_chain [OF assms, of "[]"]
  by (simp add: fetchEligibleRoles_def)

theorem fetchEligibleRoles_follows_nextLink_witness:
  "page_chain sampleEnv []
     (''https://management.azure.com/subscriptions/A'' @ instancesQuery)
     [(''https://management.azure.com/subscriptions/A'' @ instancesQuery,
         \<lparr> Value = [sampleItem ''/i/a'' ''reader'', sampleItem ''/i/b'' ''reader''],
           NextLink = ''next-A2'' \<rparr>),
      (''next-A2'', \<lparr> Value = [sampleItem ''/i/b'' ''reader''], NextLink = ''next-A3'' \<rparr>),
      (''next-A3'', \<lparr> Value = [sampleItem ''/i/c'' ''owner''], NextLink = '''' \<rparr>)] \<and>
   (\<exists>tr'. fetchEligibleRoles sampleEnv
            (''https://management.azure.com/subscriptions/A'' @ instancesQuery) [] =
          Some (Inr [sampleRole ''/i/a'' ''reader'', sampleRole ''/i/b'' ''reader'',
                     sampleRole ''/i/b'' ''reader'', sampleRole ''/i/c'' ''owner''], tr') \<and>
          tr' = [restGET (''https://management.azure.com/subscriptions/A'' @ instancesQuery),
                 restGET ''next-A2'', restGET ''next-A3''] \<and>
          length tr' = 3)"
proof -
  have chain: "page_chain sampleEnv []
     (''https://management.azure.com/subscriptions/A'' @ instancesQuery)
     [(''https://management.azure.com/subscriptions/A'' @ instancesQuery,
         \<lparr> Value = [sampleItem ''/i/a'' ''reader'', sampleItem ''/i/b'' ''reader''],
           NextLink = ''next-A2'' \<rparr>),
      (''next-A2'', \<lparr> Value = [sampleItem ''/i/b'' ''reader''], NextLink = ''next-A3'' \<rparr>),
      (''next-A3'', \<lparr> Value = [sampleItem ''/i/c'' ''owner''], NextLink = '''' \<rparr>)]"
    by code_simp
  show ?thesis
    using chain fetchEligibleRoles_follows_nextLink [OF chain]
    by (simp add: sampleRole_def)
qed

text \<open>
  C3. In the eligibility aggregator only a failure of the enumeration of the subscriptions
  makes \<open>GetEligibleRoleAssignments\<close> return an error. When the enumeration succeeds, the
  result is the deduplicated list of the rows of the scopes whose query succeeded (the
  tenant root, then the subscriptions in order); a scope whose query fails, the tenant root
  included, adds no row and raises no error.
\<close>

theorem GetEligibleRoleAssignments_scope_failures:
  "GetEligibleRoleAssignments E tr =
     (case getSubscriptions E tr of
        (Inl err, tr1) \<Rightarrow> Some (Inl (Wrap ''failed to get subscriptions'' err), tr1)
      | (Inr subs, tr1) \<Rightarrow>
          map_option (\<lambda>(rows, tr'). (Inr (uniqueRoles rows), tr'))
            (succeededRows E ('''' # map subscriptionScope subs) tr1)) \<and>
   ((\<exists>err tr'. GetEligibleRoleAssignments E tr = Some (Inl err, tr')) \<longleftrightarrow>
    (\<exists>err tr1. getSubscriptions E tr = (Inl err, tr1)))"
proof
  show eq: "GetEligibleRoleAssignments E tr =
     (case getSubscriptions E tr of
        (Inl err, tr1) \<Rightarrow> Some (Inl (Wrap ''failed to get subscriptions'' err), tr1)
      | (Inr subs, tr1) \<Rightarrow>
          map_option (\<lambda>(rows, tr'). (Inr (uniqueRoles rows), tr'))
            (succeededRows E ('''' # map subscriptionScope subs) tr1))"
    by (rule GetEligibleRoleAssignments_succeededRows)
  show "(\<exists>err tr'. GetEligibleRoleAssignments E tr = Some (Inl err, tr')) \<longleftrightarrow>
    (\<exists>err tr1. getSubscriptions E tr = (Inl err, tr1))"
  proof (cases "getSubscriptions E tr")
    case (Pair res tr1)
    show ?thesis
    proof (cases res)
      case (Inl err)
      with Pair eq show ?thesis by simp
    next
      case (Inr subs)
      with Pair eq show ?thesis by (auto split: option.splits)
    qed
  qed
qed

theorem GetEligibleRoleAssignments_scope_failures_witness:
  "getEligibleRolesAtScope sampleEnv ''/subscriptions/B''
     [[''account'', ''list'', ''--query'', ''[].{id:id, name:name}'', ''-o'', ''json'']] =
     Some (Inl (AzCommandFailed ''AuthorizationFailed''),
           [[''account'', ''list'', ''--query'', ''[].{id:id, name:name}'', ''-o'', ''json''],
            restGET (''https://management.azure.com/subscriptions/B'' @ instancesQuery)]) \<and>
   GetEligibleRoleAssignments sampleEnv [] = Some (Inr sampleUnique, sampleTrace) \<and>
   map ID sampleUnique = [''/i/a'', ''/i/b'', ''/i/c'', ''/i/d'']"
proof -
  have B: "getEligibleRolesAtScope sampleEnv ''/subscriptions/B''
     [[''account'', ''list'', ''--query'', ''[].{id:id, name:name}'', ''-o'', ''json'']] =
     Some (Inl (AzCommandFailed ''AuthorizationFailed''),
           [[''account'', ''list'', ''--query'', ''[].{id:id, name:name}'', ''-o'', ''json''],
            restGET (''https://management.azure.com/subscriptions/B'' @ instancesQuery)])"
    by code_simp
  have ids: "map ID sampleUnique = [''/i/a'', ''/i/b'', ''/i/c'', ''/i/d'']"
    by code_simp
  have scopes: "[] # map subscriptionScope
        [\<lparr> sub_ID = ''A'', sub_Name = ''a'' \<rparr>, \<lparr> sub_ID = ''B'', sub_Name = ''b'' \<rparr>,
         \<lparr> sub_ID = ''C'', sub_Name = ''c'' \<rparr>] =
       ['''', ''/subscriptions/A'', ''/subscriptions/B'', ''/subscriptions/C'']"
    by (simp add: subscriptionScope_def)
  have "GetEligibleRoleAssignments sampleEnv [] = Some (Inr sampleUnique, sampleTrace)"
    using conjunct1 [OF GetEligibleRoleAssignments_scope_failures [of sampleEnv "[]"]]
    unfolding sample_getSubscriptions prod.case sum.case scopes sample_succeededRows
    by (simp add: sample_uniqueRoles)
  with B ids show ?thesis by simp
qed

text \<open>
  C4. After all scope queries the aggregator deduplicates the accumulated roles by their
  \<open>ID\<close>: the returned list has no two elements with the same \<open>ID\<close>, it is a subsequence of
  the accumulated list (the order of first appearance is kept), it has the same set of
  identifiers, and each of its elements is the first element of the accumulated list with
  its identifier.
\<close>

theorem GetEligibleRoleAssignments_dedup:
  assumes "GetEligibleRoleAssignments E tr = Some (Inr rs, tr')"
  shows "\<exists>allRoles. collectAllRoles E tr = Some (Inr allRoles, tr') \<and>
           rs = uniqueRoles allRoles \<and>
           distinct (map ID rs) \<and>
           subseq rs allRoles \<and>
           ID ` set rs = ID ` set allRoles \<and>
           (\<forall>r\<in>set rs. find (\<lambda>y. ID y = ID r) allRoles = Some r)"
proof -
  from GetEligibleRoleAssignments_rows [OF assms] obtain allRoles where
    c: "collectAllRoles E tr = Some (Inr allRoles, tr')" and u: "rs = uniqueRoles allRoles"
    by blast
  have f: "rs = firstSeen {} allRoles"
    by (simp add: u uniqueRoles_firstSeen)
  have "distinct (map ID rs)"
    unfolding f by (rule firstSeen_distinct)
  moreover have "subseq rs allRoles"
    unfolding f by (rule firstSeen_subseq)
  moreover have "ID ` set rs = ID ` set allRoles"
    unfolding f by (simp add: firstSeen_ids)
  moreover have "\<forall>r\<in>set rs. find (\<lambda>y. ID y = ID r) allRoles = Some r"
    unfolding f by (blast intro: firstSeen_find)
  ultimately show ?thesis using c u by blast
qed

theorem GetEligibleRoleAssignments_dedup_witness:
  "GetEligibleRoleAssignments sampleEnv [] = Some (Inr sampleUnique, sampleTrace) \<and>
   map ID sampleRows = [''/i/a'', ''/i/a'', ''/i/b'', ''/i/b'', ''/i/c'', ''/i/d''] \<and>
   map ID sampleUnique = [''/i/a'', ''/i/b'', ''/i/c'', ''/i/d''] \<and>
   (\<exists>allRoles. collectAllRoles sampleEnv [] = Some (Inr allRoles, sampleTrace) \<and>
      sampleUnique = uniqueRoles allRoles \<and>
      distinct (map ID sampleUnique) \<and>
      subseq sampleUnique allRoles \<and>
      ID ` set sampleUnique = ID ` set allRoles \<and>
      (\<forall>r\<in>set sampleUnique. find (\<lambda>y. ID y = ID r) allRoles = Some r))"
proof -
  have a: "map ID sampleRows = [''/i/a'', ''/i/a'', ''/i/b'', ''/i/b'', ''/i/c'', ''/i/d'']"
    by code_simp
  have b: "map ID sampleUnique = [''/i/a'', ''/i/b'', ''/i/c'', ''/i/d'']"
    by code_simp
  show ?thesis
    using GetEligibleRoleAssignments_dedup [OF sample_GetEligibleRoleAssignments]
      sample_GetEligibleRoleAssignments a b
    by simp
qed

text \<open>
  C10. Every role returned by \<open>GetEligibleRoleAssignments\<close> has its \<open>EligibilityID\<close> equal
  to its \<open>ID\<close>, both being the \<open>id\<close> of the item of the response, so the returned list has
  no two elements with the same \<open>EligibilityID\<close> either; the roles returned by
  \<open>GetActiveRoleAssignments\<close> have the empty \<open>EligibilityID\<close> of a field that is not set.
\<close>

theorem EligibilityID_is_ID:
  "ID (mkEligibleRole E item) = item_ID item \<and>
   EligibilityID (mkEligibleRole E item) = item_ID item \<and>
   (GetEligibleRoleAssignments E tr = Some (Inr rs, tr') \<longrightarrow>
      (\<forall>r\<in>set rs. EligibilityID r = ID r) \<and> distinct (map EligibilityID rs)) \<and>
   (GetActiveRoleAssignments E tr = (Inr active, tr'') \<longrightarrow>
      (\<forall>r\<in>set active. EligibilityID r = ''''))"
proof (intro conjI impI)
  show "ID (mkEligibleRole E item) = item_ID item"
    by (simp add: mkEligibleRole_def)
  show "EligibilityID (mkEligibleRole E item) = item_ID item"
    by (simp add: mkEligibleRole_def)
next
  assume ret: "GetEligibleRoleAssignments E tr = Some (Inr rs, tr')"
  from GetEligibleRoleAssignments_rows [OF ret] obtain allRoles where
    c: "collectAllRoles E tr = Some (Inr allRoles, tr')" and u: "rs = uniqueRoles allRoles"
    by blast
  have "\<forall>r\<in>set allRoles. EligibilityID r = ID r"
    by (rule collectAllRoles_all [OF c]) (simp add: mkEligibleRole_def)
  moreover have "set rs \<subseteq> set allRoles"
    by (simp add: u uniqueRoles_firstSeen firstSeen_subset)
  ultimately show all: "\<forall>r\<in>set rs. EligibilityID r = ID r"
    by blast
  then have m: "map EligibilityID rs = map ID rs"
    by simp
  show "distinct (map EligibilityID rs)"
    unfolding m by (simp add: u uniqueRoles_firstSeen firstSeen_distinct)
next
  assume "GetActiveRoleAssignments E tr = (Inr active, tr'')"
  then show "\<forall>r\<in>set active. EligibilityID r = ''''"
    by (auto simp: GetActiveRoleAssignments_def mkActiveRole_def
        split: prod.splits sum.splits option.splits)
qed

theorem EligibilityID_is_ID_witness:
  "GetEligibleRoleAssignments sampleEnv [] = Some (Inr sampleUnique, sampleTrace) \<and>
   map EligibilityID sampleUnique = [''/i/a'', ''/i/b'', ''/i/c'', ''/i/d''] \<and>
   map EligibilityID sampleUnique = map ID sampleUnique \<and>
   distinct (map EligibilityID sampleUnique) \<and>
   GetActiveRoleAssignments sampleEnv [] =
     (Inr [mkActiveRole (sampleItem ''/i/a'' ''reader'')], [restGET activeInstancesURL]) \<and>
   ID (mkActiveRole (sampleItem ''/i/a'' ''reader'')) = ''/i/a'' \<and>
   EligibilityID (mkActiveRole (sampleItem ''/i/a'' ''reader'')) = []"
proof -
  have a: "map EligibilityID sampleUnique = [''/i/a'', ''/i/b'', ''/i/c'', ''/i/d'']"
    by code_simp
  have b: "ID (mkActiveRole (sampleItem ''/i/a'' ''reader'')) = ''/i/a''"
    by code_simp
  note t = EligibilityID_is_ID [of sampleEnv _ "[]" sampleUnique sampleTrace
      "[mkActiveRole (sampleItem ''/i/a'' ''reader'')]" "[restGET activeInstancesURL]"]
  from t sample_GetEligibleRoleAssignments
  have "(\<forall>r\<in>set sampleUnique. EligibilityID r = ID r) \<and> distinct (map EligibilityID sampleUnique)"
    by blast
  then have c: "map EligibilityID sampleUnique = map ID sampleUnique"
    and d: "distinct (map EligibilityID sampleUnique)"
    by simp_all
  from t sample_GetActiveRoleAssignments
  have "\<forall>r\<in>set [mkActiveRole (sampleItem ''/i/a'' ''reader'')]. EligibilityID r = ''''"
    by blast
  then have e: "EligibilityID (mkActiveRole (sampleItem ''/i/a'' ''reader'')) = []"
    by simp
  show ?thesis
    using sample_GetEligibleRoleAssignments sample_GetActiveRoleAssignments a b c d e
    by simp
qed

text \<open>
  C6. The mapping of one item of a page to an \<open>EligibleRole\<close>: a start or end timestamp
  that does not parse as RFC 3339 is dropped (the start time stays the zero time, the end
  time stays nil) and the fetch of the page still succeeds with one role per item;
  \<open>MaxDuration\<close> is 480; the role name, scope name and scope type are those of the expanded
  properties when the item has them; otherwise the role name is the last segment of the role
  definition id, the scope name is the segment after the first segment named
  \<open>subscriptions\<close>, \<open>resourceGroups\<close> or \<open>managementGroups\<close> of the scope path, and the scope
  type is found by looking for \<open>/resourceGroups/\<close>, \<open>/managementGroups/\<close> and
  \<open>/subscriptions/\<close>, in this order, as substrings of the scope path.
\<close>

theorem mkEligibleRole_mapping:
  "MaxDuration (mkEligibleRole E item) = 480 \<and>
   (time_Parse_RFC3339 E (prop_StartDateTime item) = None \<longrightarrow>
      StartDateTime (mkEligibleRole E item) = zeroTime) \<and>
   (prop_StartDateTime item \<noteq> '''' \<and> time_Parse_RFC3339 E (prop_StartDateTime item) = Some t \<longrightarrow>
      StartDateTime (mkEligibleRole E item) = t) \<and>
   (prop_EndDateTime item = Some e \<and> time_Parse_RFC3339 E e = None \<longrightarrow>
      EndDateTime (mkEligibleRole E item) = None) \<and>
   (prop_EndDateTime item = Some e \<and> e \<noteq> '''' \<longrightarrow>
      EndDateTime (mkEligibleRole E item) = time_Parse_RFC3339 E e) \<and>
   (page_chain E tr url [(url, page)] \<longrightarrow>
      fetchEligibleRoles E url tr =
        Some (Inr (map (mkEligibleRole E) (Value page)), tr @ [restGET url])) \<and>
   (prop_ExpandedProperties item = Some ep \<longrightarrow>
      RoleName (mkEligibleRole E item) = rd_DisplayName (ep_RoleDefinition ep) \<and>
      ScopeName (mkEligibleRole E item) = sc_DisplayName (ep_Scope ep) \<and>
      ScopeType (mkEligibleRole E item) = sc_Type (ep_Scope ep)) \<and>
   (prop_ExpandedProperties item = None \<longrightarrow>
      RoleName (mkEligibleRole E item) = last (strings_Split (prop_RoleDefinitionID item) CHR ''/'') \<and>
      (CHR ''/'' \<notin> set seg \<and> prop_RoleDefinitionID item = p @ CHR ''/'' # seg \<longrightarrow>
         RoleName (mkEligibleRole E item) = seg) \<and>
      (strings_Split (prop_Scope item) CHR ''/'' = pre @ k # v # post \<and>
       k \<in> scopeKeys \<and> set pre \<inter> scopeKeys = {} \<longrightarrow>
         ScopeName (mkEligibleRole E item) = v) \<and>
      ScopeType (mkEligibleRole E item) =
        (if (\<exists>a b. prop_Scope item = a @ ''/resourceGroups/'' @ b) then ''resourceGroup''
         else if (\<exists>a b. prop_Scope item = a @ ''/managementGroups/'' @ b) then ''managementGroup''
         else if (\<exists>a b. prop_Scope item = a @ ''/subscriptions/'' @ b) then ''subscription''
         else ''unknown''))"
proof (intro conjI impI)
  show "MaxDuration (mkEligibleRole E item) = 480"
    by (simp add: mkEligibleRole_def)
next
  assume "time_Parse_RFC3339 E (prop_StartDateTime item) = None"
  then show "StartDateTime (mkEligibleRole E item) = zeroTime"
    by (simp add: mkEligibleRole_def)
next
  assume "prop_StartDateTime item \<noteq> '''' \<and> time_Parse_RFC3339 E (prop_StartDateTime item) = Some t"
  then show "StartDateTime (mkEligibleRole E item) = t"
    by (simp add: mkEligibleRole_def)
next
  assume "prop_EndDateTime item = Some e \<and> time_Parse_RFC3339 E e = None"
  then show "EndDateTime (mkEligibleRole E item) = None"
    by (simp add: mkEligibleRole_def)
next
  assume "prop_EndDateTime item = Some e \<and> e \<noteq> ''''"
  then show "EndDateTime (mkEligibleRole E item) = time_Parse_RFC3339 E e"
    by (simp add: mkEligibleRole_def)
next
  assume "page_chain E tr url [(url, page)]"
  from fetchEligibleRoles_loop_chain [OF this, of "[]"]
  show "fetchEligibleRoles E url tr =
        Some (Inr (map (mkEligibleRole E) (Value page)), tr @ [restGET url])"
    by (simp add: fetchEligibleRoles_def)
next
  assume ep: "prop_ExpandedProperties item = Some ep"
  show "RoleName (mkEligibleRole E item) = rd_DisplayName (ep_RoleDefinition ep)"
    by (simp add: mkEligibleRole_def ep)
  show "ScopeName (mkEligibleRole E item) = sc_DisplayName (ep_Scope ep)"
    by (simp add: mkEligibleRole_def ep)
  show "ScopeType (mkEligibleRole E item) = sc_Type (ep_Scope ep)"
    by (simp add: mkEligibleRole_def ep)
next
  assume none: "prop_ExpandedProperties item = None"
  show "RoleName (mkEligibleRole E item) = last (strings_Split (prop_RoleDefinitionID item) CHR ''/'')"
    by (simp add: mkEligibleRole_def none extractLastSegment_last)
  show "ScopeType (mkEligibleRole E item) =
        (if (\<exists>a b. prop_Scope item = a @ ''/resourceGroups/'' @ b) then ''resourceGroup''
         else if (\<exists>a b. prop_Scope item = a @ ''/managementGroups/'' @ b) then ''managementGroup''
         else if (\<exists>a b. prop_Scope item = a @ ''/subscriptions/'' @ b) then ''subscription''
         else ''unknown'')"
    by (simp only: mkEligibleRole_def none option.case EligibleRole.simps
        detectScopeType_substring)
next
  assume none: "prop_ExpandedProperties item = None"
    and "CHR ''/'' \<notin> set seg \<and> prop_RoleDefinitionID item = p @ CHR ''/'' # seg"
  then show "RoleName (mkEligibleRole E item) = seg"
    by (simp add: mkEligibleRole_def extractLastSegment_path)
next
  assume none: "prop_ExpandedProperties item = None"
    and "strings_Split (prop_Scope item) CHR ''/'' = pre @ k # v # post \<and>
       k \<in> scopeKeys \<and> set pre \<inter> scopeKeys = {}"
  then show "ScopeName (mkEligibleRole E item) = v"
    by (simp add: mkEligibleRole_def extractScopeName_first)
qed

theorem mkEligibleRole_mapping_witness:
  "MaxDuration (mkEligibleRole sampleEnv sampleItemMalformed) = 480 \<and>
   prop_StartDateTime sampleItemMalformed = ''yesterday'' \<and>
   prop_EndDateTime sampleItemMalformed = Some ''tomorrow'' \<and>
   StartDateTime (mkEligibleRole sampleEnv sampleItemMalformed) = zeroTime \<and>
   EndDateTime (mkEligibleRole sampleEnv sampleItemMalformed) = None \<and>
   prop_RoleDefinitionID sampleItemMalformed =
     ''/providers/Microsoft.Authorization/roleDefinitions/reader'' \<and>
   prop_Scope sampleItemMalformed = ''/subscriptions/A/resourceGroups/rg1'' \<and>
   RoleName (mkEligibleRole sampleEnv sampleItemMalformed) = ''reader'' \<and>
   ScopeName (mkEligibleRole sampleEnv sampleItemMalformed) = ''A'' \<and>
   ScopeType (mkEligibleRole sampleEnv sampleItemMalformed) = ''resourceGroup'' \<and>
   StartDateTime (mkEligibleRole sampleEnv sampleItemExpanded) = Instant 1 \<and>
   EndDateTime (mkEligibleRole sampleEnv sampleItemExpanded) = Some (Instant 1) \<and>
   RoleName (mkEligibleRole sampleEnv sampleItemExpanded) = ''Reader'' \<and>
   ScopeName (mkEligibleRole sampleEnv sampleItemExpanded) = ''Production'' \<and>
   ScopeType (mkEligibleRole sampleEnv sampleItemExpanded) = ''subscription'' \<and>
   fetchEligibleRoles sampleEnv (''https://management.azure.com'' @ instancesQuery) [] =
     Some (Inr [mkEligibleRole sampleEnv (sampleItem ''/i/a'' ''reader'')],
           [restGET (''https://management.azure.com'' @ instancesQuery)])"
proof -
  note m = mkEligibleRole_mapping [where E = sampleEnv and item = sampleItemMalformed
      and e = "''tomorrow''" and tr = "[]"
      and url = "''https://management.azure.com'' @ instancesQuery"
      and page = "\<lparr> Value = [sampleItem ''/i/a'' ''reader''], NextLink = [] \<rparr>"
      and seg = "''reader''" and p = "''/providers/Microsoft.Authorization/roleDefinitions''"
      and pre = "[[]]" and k = "''subscriptions''" and v = "''A''"
      and post = "[''resourceGroups'', ''rg1'']"]
  note x = mkEligibleRole_mapping [where E = sampleEnv and item = sampleItemExpanded
      and t = "Instant 1" and e = "''2024-01-01T00:00:00Z''" and ep = sampleExpanded]
  have s1: "prop_StartDateTime sampleItemMalformed = ''yesterday''"
    and e1: "prop_EndDateTime sampleItemMalformed = Some ''tomorrow''"
    and r1: "prop_RoleDefinitionID sampleItemMalformed =
       ''/providers/Microsoft.Authorization/roleDefinitions/reader''"
    and c1: "prop_Scope sampleItemMalformed = ''/subscriptions/A/resourceGroups/rg1''"
    and n1: "prop_ExpandedProperties sampleItemMalformed = None"
    by (simp_all add: sampleItemMalformed_def sampleItem_def)
  have p1: "time_Parse_RFC3339 sampleEnv ''yesterday'' = None"
    and p2: "time_Parse_RFC3339 sampleEnv ''tomorrow'' = None"
    and p3: "time_Parse_RFC3339 sampleEnv ''2024-01-01T00:00:00Z'' = Some (Instant 1)"
    by (simp_all add: sampleEnv_def)
  have split: "strings_Split ''/subscriptions/A/resourceGroups/rg1'' CHR ''/'' =
      [''''] @ ''subscriptions'' # ''A'' # [''resourceGroups'', ''rg1'']"
    by code_simp
  have keys: "''subscriptions'' \<in> scopeKeys" "set [''''] \<inter> scopeKeys = {}"
    by (simp_all add: scopeKeys_def)
  have sub: "\<exists>a b. ''/subscriptions/A/resourceGroups/rg1'' = a @ ''/resourceGroups/'' @ b"
  proof -
    have "''/subscriptions/A/resourceGroups/rg1'' = ''/subscriptions/A'' @ ''/resourceGroups/'' @ ''rg1''"
      by simp
    then show ?thesis by blast
  qed
  have chain: "page_chain sampleEnv [] (''https://management.azure.com'' @ instancesQuery)
      [(''https://management.azure.com'' @ instancesQuery,
        \<lparr> Value = [sampleItem ''/i/a'' ''reader''], NextLink = '''' \<rparr>)]"
    by code_simp
  have s2: "prop_StartDateTime sampleItemExpanded = ''2024-01-01T00:00:00Z''"
    and e2: "prop_EndDateTime sampleItemExpanded = Some ''2024-01-01T00:00:00Z''"
    and x2: "prop_ExpandedProperties sampleItemExpanded = Some sampleExpanded"
    by (simp_all add: sampleItemExpanded_def sampleItem_def)
  have d: "rd_DisplayName (ep_RoleDefinition sampleExpanded) = ''Reader''"
    "sc_DisplayName (ep_Scope sampleExpanded) = ''Production''"
    "sc_Type (ep_Scope sampleExpanded) = ''subscription''"
    by (simp_all add: sampleExpanded_def)
  have A: "MaxDuration (mkEligibleRole sampleEnv sampleItemMalformed) = 480"
    using m by blast
  have B: "StartDateTime (mkEligibleRole sampleEnv sampleItemMalformed) = zeroTime"
    using m s1 p1 by simp
  have C: "EndDateTime (mkEligibleRole sampleEnv sampleItemMalformed) = None"
    using m e1 p2 by simp
  have D: "RoleName (mkEligibleRole sampleEnv sampleItemMalformed) = ''reader''"
    using m n1 r1 by simp
  have F: "ScopeName (mkEligibleRole sampleEnv sampleItemMalformed) = ''A''"
    using m n1 c1 split keys by simp
  have G: "ScopeType (mkEligibleRole sampleEnv sampleItemMalformed) = ''resourceGroup''"
    using m n1 c1 sub by simp
  have H: "StartDateTime (mkEligibleRole sampleEnv sampleItemExpanded) = Instant 1"
    using x s2 p3 by simp
  have I: "EndDateTime (mkEligibleRole sampleEnv sampleItemExpanded) = Some (Instant 1)"
    using x e2 p3 by simp
  have J: "RoleName (mkEligibleRole sampleEnv sampleItemExpanded) = ''Reader''"
    "ScopeName (mkEligibleRole sampleEnv sampleItemExpanded) = ''Production''"
    "ScopeType (mkEligibleRole sampleEnv sampleItemExpanded) = ''subscription''"
    using x x2 d by simp_all
  have K: "fetchEligibleRoles sampleEnv (''https://management.azure.com'' @ instancesQuery) [] =
     Some (Inr [mkEligibleRole sampleEnv (sampleItem ''/i/a'' ''reader'')],
           [restGET (''https://management.azure.com'' @ instancesQuery)])"
    using m chain by simp
  show ?thesis
    using A B C D F G H I J K s1 e1 r1 c1 by simp
qed

text \<open>
  C1. In every activation attempt in which the signed-in principal is resolved, the body
  that \<open>ActivateRole\<close> builds and submits carries that principal in its \<open>principalId\<close> field,
  whatever the \<open>PrincipalID\<close> of the eligibility record is, while the schedule lookup issued
  before is the query whose filter names the \<open>PrincipalID\<close> of the eligibility record.
\<close>

theorem ActivateRole_principals:
  assumes "GetCurrentUserPrincipalID E tr = (Inr p, tr1)"
  shows "\<exists>body props tr2.
           activationBody E req tr = (Inr body, tr2) \<and>
           field body ''properties'' = Some (JObject props) \<and>
           props ''principalId'' = Some (JString p) \<and>
           tr2 = tr @ [[''ad'', ''signed-in-user'', ''show'', ''--query'', ''id'', ''--output'', ''tsv''],
                       restGET (schedulesURL (Scope (Role req)) (RoleDefinitionID (Role req))
                                  (PrincipalID (Role req)))] \<and>
           strings_Contains
             (schedulesURL (Scope (Role req)) (RoleDefinitionID (Role req)) (PrincipalID (Role req)))
             (''$filter=principalId eq '' @ [CHR 0x27] @ PrincipalID (Role req) @ [CHR 0x27]) \<and>
           (\<forall>s. json_Marshal E body = Some s \<longrightarrow>
              snd (ActivateRole E req tr) =
                tr2 @ [restPUT (activationURL (Scope (Role req)) (uuid_New_String E tr)) s])"
proof -
  let ?who = "[''ad'', ''signed-in-user'', ''show'', ''--query'', ''id'', ''--output'', ''tsv'']"
  let ?sid = "fst (linkedScheduleID E req tr1)"
  let ?tr2 = "snd (linkedScheduleID E req tr1)"
  let ?body = "requestBody p ?sid (time_UTC_Format_RFC3339 E (time_Now E ?tr2)) req"
  have tr1: "tr1 = tr @ [?who]"
    using GetCurrentUserPrincipalID_trace [of E tr] assms by simp
  have b: "activationBody E req tr = (Inr ?body, ?tr2)"
    by (rule activationBody_eq [OF assms])
  obtain props where props: "field ?body ''properties'' = Some (JObject props)"
    and pid: "props ''principalId'' = Some (JString p)"
    using requestBody_properties [of p ?sid _ req] by blast
  have tr2: "?tr2 = tr @ [?who,
      restGET (schedulesURL (Scope (Role req)) (RoleDefinitionID (Role req)) (PrincipalID (Role req)))]"
    by (simp add: linkedScheduleID_eq tr1)
  have put: "\<forall>s. json_Marshal E ?body = Some s \<longrightarrow>
      snd (ActivateRole E req tr) =
        ?tr2 @ [restPUT (activationURL (Scope (Role req)) (uuid_New_String E tr)) s]"
    using ActivateRole_put [OF b] by blast
  from b props pid tr2 put schedulesURL_filter show ?thesis by blast
qed

theorem ActivateRole_principals_witness:
  "GetCurrentUserPrincipalID sampleEnv [] =
     (Inr ''user-1'', [[''ad'', ''signed-in-user'', ''show'', ''--query'', ''id'', ''--output'', ''tsv'']]) \<and>
   PrincipalID (Role (sampleRequest ''reader'')) = ''group-1'' \<and>
   snd (ActivateRole sampleEnv (sampleRequest ''reader'') []) =
     [[''ad'', ''signed-in-user'', ''show'', ''--query'', ''id'', ''--output'', ''tsv''],
      restGET (schedulesURL ''/subscriptions/A/resourceGroups/rg1''
         ''/providers/Microsoft.Authorization/roleDefinitions/reader'' ''group-1''),
      restPUT (activationURL ''/subscriptions/A/resourceGroups/rg1'' ''uuid-1'') ''user-1 PT90M''] \<and>
   (\<exists>body props tr2.
      activationBody sampleEnv (sampleRequest ''reader'') [] = (Inr body, tr2) \<and>
      field body ''properties'' = Some (JObject props) \<and>
      props ''principalId'' = Some (JString ''user-1''))"
proof -
  have run: "snd (ActivateRole sampleEnv (sampleRequest ''reader'') []) =
     [[''ad'', ''signed-in-user'', ''show'', ''--query'', ''id'', ''--output'', ''tsv''],
      restGET (schedulesURL ''/subscriptions/A/resourceGroups/rg1''
         ''/providers/Microsoft.Authorization/roleDefinitions/reader'' ''group-1''),
      restPUT (activationURL ''/subscriptions/A/resourceGroups/rg1'' ''uuid-1'') ''user-1 PT90M'']"
    by code_simp
  from ActivateRole_principals [OF sample_whoami, of "sampleRequest ''reader''"]
  have "\<exists>body props tr2.
      activationBody sampleEnv (sampleRequest ''reader'') [] = (Inr body, tr2) \<and>
      field body ''properties'' = Some (JObject props) \<and>
      props ''principalId'' = Some (JString ''user-1'')"
    by blast
  with run sample_whoami sample_request_fields(3) show ?thesis by blast
qed

text \<open>
  C2. Schedule linking always produces an identifier: when the filtered query for the
  eligibility schedules returns rows, it is the \<open>name\<close> of the first row (not its \<open>id\<close>);
  when the query fails, cannot be decoded or returns no row, it is the last path segment of
  the \<open>ID\<close> of the eligible role instance. The lookup adds no error to an activation: once
  the signed-in principal is resolved the request body is built, with this identifier as
  its \<open>linkedRoleEligibilityScheduleId\<close>.
\<close>

theorem linkedScheduleID_never_fails:
  "linkedScheduleID E req tr =
     ((case az E tr (restGET (schedulesURL (Scope (Role req)) (RoleDefinitionID (Role req))
                       (PrincipalID (Role req)))) of
         Inl d \<Rightarrow> last (strings_Split (ID (Role req)) CHR ''/'')
       | Inr out \<Rightarrow>
           (case unmarshal_schedules E out of
              None \<Rightarrow> last (strings_Split (ID (Role req)) CHR ''/'')
            | Some [] \<Rightarrow> last (strings_Split (ID (Role req)) CHR ''/'')
            | Some (first # others) \<Rightarrow> sched_Name first)),
      tr @ [restGET (schedulesURL (Scope (Role req)) (RoleDefinitionID (Role req))
                       (PrincipalID (Role req)))]) \<and>
   (GetCurrentUserPrincipalID E tr0 = (Inr p, tr) \<longrightarrow>
      (\<exists>body props.
         activationBody E req tr0 = (Inr body, snd (linkedScheduleID E req tr)) \<and>
         field body ''properties'' = Some (JObject props) \<and>
         props ''linkedRoleEligibilityScheduleId'' =
           Some (JString (fst (linkedScheduleID E req tr)))))"
proof (intro conjI impI)
  show "linkedScheduleID E req tr =
     ((case az E tr (restGET (schedulesURL (Scope (Role req)) (RoleDefinitionID (Role req))
                       (PrincipalID (Role req)))) of
         Inl d \<Rightarrow> last (strings_Split (ID (Role req)) CHR ''/'')
       | Inr out \<Rightarrow>
           (case unmarshal_schedules E out of
              None \<Rightarrow> last (strings_Split (ID (Role req)) CHR ''/'')
            | Some [] \<Rightarrow> last (strings_Split (ID (Role req)) CHR ''/'')
            | Some (first # others) \<Rightarrow> sched_Name first)),
      tr @ [restGET (schedulesURL (Scope (Role req)) (RoleDefinitionID (Role req))
                       (PrincipalID (Role req)))])"
    by (rule linkedScheduleID_eq)
next
  assume who: "GetCurrentUserPrincipalID E tr0 = (Inr p, tr)"
  let ?sid = "fst (linkedScheduleID E req tr)"
  let ?tr2 = "snd (linkedScheduleID E req tr)"
  let ?body = "requestBody p ?sid (time_UTC_Format_RFC3339 E (time_Now E ?tr2)) req"
  have b: "activationBody E req tr0 = (Inr ?body, ?tr2)"
    by (rule activationBody_eq [OF who])
  obtain props where "field ?body ''properties'' = Some (JObject props)"
    and "props ''linkedRoleEligibilityScheduleId'' = Some (JString ?sid)"
    using requestBody_properties [of p ?sid _ req] by blast
  with b show "\<exists>body props.
         activationBody E req tr0 = (Inr body, snd (linkedScheduleID E req tr)) \<and>
         field body ''properties'' = Some (JObject props) \<and>
         props ''linkedRoleEligibilityScheduleId'' =
           Some (JString (fst (linkedScheduleID E req tr)))"
    by blast
qed

theorem linkedScheduleID_never_fails_witness:
  "unmarshal_schedules sampleEnv ''SCHEDULES'' =
     Some [\<lparr> sched_ID = ''/subscriptions/A/schedules/sched-1'', sched_Name = ''sched-1'' \<rparr>] \<and>
   fst (linkedScheduleID sampleEnv (sampleRequest ''reader'') []) = ''sched-1'' \<and>
   unmarshal_schedules sampleEnv ''NONE'' = Some [] \<and>
   ID (Role (sampleRequest ''owner'')) = ''/subscriptions/A/instances/inst-7'' \<and>
   fst (linkedScheduleID sampleEnv (sampleRequest ''owner'') []) = ''inst-7'' \<and>
   (\<exists>body props tr2.
      activationBody sampleEnv (sampleRequest ''owner'') [] = (Inr body, tr2) \<and>
      field body ''properties'' = Some (JObject props) \<and>
      props ''linkedRoleEligibilityScheduleId'' = Some (JString ''inst-7''))"
proof -
  note r = linkedScheduleID_never_fails [of sampleEnv "sampleRequest ''reader''" "[]"]
  note w = linkedScheduleID_never_fails [of sampleEnv "sampleRequest ''owner''" "[]"]
  note b = linkedScheduleID_never_fails [of sampleEnv "sampleRequest ''owner''"
      "[[''ad'', ''signed-in-user'', ''show'', ''--query'', ''id'', ''--output'', ''tsv'']]"
      "[]" "''user-1''"]
  have az1: "az sampleEnv [] (restGET (schedulesURL ''/subscriptions/A/resourceGroups/rg1''
        ''/providers/Microsoft.Authorization/roleDefinitions/reader'' ''group-1'')) =
      Inr ''SCHEDULES''"
    by code_simp
  have az2: "az sampleEnv [] (restGET (schedulesURL ''/subscriptions/A/resourceGroups/rg1''
        ''/providers/Microsoft.Authorization/roleDefinitions/owner'' ''group-1'')) =
      Inr ''NONE''"
    by code_simp
  have u1: "unmarshal_schedules sampleEnv ''SCHEDULES'' =
     Some [\<lparr> sched_ID = ''/subscriptions/A/schedules/sched-1'', sched_Name = ''sched-1'' \<rparr>]"
    and u2: "unmarshal_schedules sampleEnv ''NONE'' = Some []"
    by (simp_all add: sampleEnv_def)
  have seg: "last (strings_Split ''/subscriptions/A/instances/inst-7'' CHR ''/'') = ''inst-7''"
    by code_simp
  have A: "fst (linkedScheduleID sampleEnv (sampleRequest ''reader'') []) = ''sched-1''"
    using conjunct1 [OF r] by (simp add: sample_request_fields az1 u1)
  have B: "fst (linkedScheduleID sampleEnv (sampleRequest ''owner'') []) = ''inst-7''"
    using conjunct1 [OF w] by (simp add: sample_request_fields az2 u2 seg)
  have C: "\<exists>body props tr2.
      activationBody sampleEnv (sampleRequest ''owner'') [] = (Inr body, tr2) \<and>
      field body ''properties'' = Some (JObject props) \<and>
      props ''linkedRoleEligibilityScheduleId'' = Some (JString ''inst-7'')"
    using conjunct2 [OF b] sample_whoami sample_linked_owner by auto
  from A B C u1 u2 sample_request_fields(4) show ?thesis by blast
qed

text \<open>
  C7. The body that \<open>ActivateRole\<close> builds has a \<open>ticketInfo\<close> field exactly when the ticket
  number or the ticket system of the request is not empty; the field is then a map that
  holds \<open>ticketNumber\<close> exactly when the ticket number is not empty and \<open>ticketSystem\<close>
  exactly when the ticket system is not empty, with these values, and no other key.
\<close>

theorem activationBody_ticketInfo:
  assumes "activationBody E req tr = (Inr body, tr2)"
  shows "\<exists>props.
           field body ''properties'' = Some (JObject props) \<and>
           (props ''ticketInfo'' \<noteq> None \<longleftrightarrow> TicketNumber req \<noteq> '''' \<or> TicketSystem req \<noteq> '''') \<and>
           (TicketNumber req \<noteq> '''' \<or> TicketSystem req \<noteq> '''' \<longrightarrow>
              (\<exists>info. props ''ticketInfo'' = Some (JObject info) \<and>
                 info ''ticketNumber'' =
                   (if TicketNumber req \<noteq> '''' then Some (JString (TicketNumber req)) else None) \<and>
                 info ''ticketSystem'' =
                   (if TicketSystem req \<noteq> '''' then Some (JString (TicketSystem req)) else None) \<and>
                 dom info \<subseteq> {''ticketNumber'', ''ticketSystem''}))"
proof -
  from activationBody_Inr [OF assms] obtain p sid where
    body: "body = requestBody p sid (time_UTC_Format_RFC3339 E (time_Now E tr2)) req"
    by blast
  obtain props where props: "field body ''properties'' = Some (JObject props)"
    and ti: "props ''ticketInfo'' =
       (if TicketNumber req \<noteq> '''' \<or> TicketSystem req \<noteq> ''''
        then Some (JObject (ticketInfo req)) else None)"
    using requestBody_properties [of p sid _ req] unfolding body by blast
  have n: "ticketInfo req ''ticketNumber'' =
      (if TicketNumber req \<noteq> '''' then Some (JString (TicketNumber req)) else None)"
    by (simp add: ticketInfo_def Let_def)
  have s: "ticketInfo req ''ticketSystem'' =
      (if TicketSystem req \<noteq> '''' then Some (JString (TicketSystem req)) else None)"
    by (simp add: ticketInfo_def Let_def)
  have d: "dom (ticketInfo req) \<subseteq> {''ticketNumber'', ''ticketSystem''}"
    by (auto simp: ticketInfo_def Let_def split: if_splits)
  have iff: "props ''ticketInfo'' \<noteq> None \<longleftrightarrow> TicketNumber req \<noteq> '''' \<or> TicketSystem req \<noteq> ''''"
    by (simp add: ti)
  have "TicketNumber req \<noteq> '''' \<or> TicketSystem req \<noteq> '''' \<longrightarrow>
      (\<exists>info. props ''ticketInfo'' = Some (JObject info) \<and>
         info ''ticketNumber'' =
           (if TicketNumber req \<noteq> '''' then Some (JString (TicketNumber req)) else None) \<and>
         info ''ticketSystem'' =
           (if TicketSystem req \<noteq> '''' then Some (JString (TicketSystem req)) else None) \<and>
         dom info \<subseteq> {''ticketNumber'', ''ticketSystem''})"
    using ti n s d by auto
  with props iff show ?thesis by blast
qed

theorem activationBody_ticketInfo_witness:
  "TicketNumber (sampleRequest ''reader'') = '''' \<and>
   TicketSystem (sampleRequest ''reader'') = ''Jira'' \<and>
   (\<exists>body tr2 props info.
      activationBody sampleEnv (sampleRequest ''reader'') [] = (Inr body, tr2) \<and>
      field body ''properties'' = Some (JObject props) \<and>
      props ''ticketInfo'' = Some (JObject info) \<and>
      info ''ticketNumber'' = None \<and>
      info ''ticketSystem'' = Some (JString ''Jira'') \<and>
      dom info \<subseteq> {''ticketNumber'', ''ticketSystem''})"
proof -
  from activationBody_ticketInfo [OF sample_activationBody]
  have "\<exists>props info.
      field (requestBody ''user-1'' ''sched-1'' ''2024-06-01T12:00:00Z'' (sampleRequest ''reader''))
        ''properties'' = Some (JObject props) \<and>
      props ''ticketInfo'' = Some (JObject info) \<and>
      info ''ticketNumber'' = None \<and>
      info ''ticketSystem'' = Some (JString ''Jira'') \<and>
      dom info \<subseteq> {''ticketNumber'', ''ticketSystem''}"
    by (simp add: sample_request_fields) blast
  with sample_activationBody sample_request_fields(6,7) show ?thesis by blast
qed

text \<open>
  C8. The \<open>scheduleInfo\<close> block of the body that \<open>ActivateRole\<close> builds for a request with a
  duration of \<open>d\<close> minutes has the expiration type \<open>AfterDuration\<close>, the expiration duration
  \<open>PT\<close>, the decimal digits of \<open>d\<close>, \<open>M\<close>, and as start time the clock read at that moment in
  UTC and formatted as RFC 3339; for a duration that is not negative the digits are a decimal
  numeral of value \<open>d\<close>.
\<close>

theorem activationBody_scheduleInfo:
  assumes "activationBody E req tr = (Inr body, tr2)"
  shows "\<exists>props info expiration.
           field body ''properties'' = Some (JObject props) \<and>
           props ''scheduleInfo'' = Some (JObject info) \<and>
           info ''startDateTime'' = Some (JString (time_UTC_Format_RFC3339 E (time_Now E tr2))) \<and>
           info ''expiration'' = Some (JObject expiration) \<and>
           expiration ''type'' = Some (JString ''AfterDuration'') \<and>
           expiration ''duration'' = Some (JString (''PT'' @ sprintf_d (Duration req) @ ''M'')) \<and>
           (0 \<le> Duration req \<longrightarrow> digitsValue (sprintf_d (Duration req)) = nat (Duration req))"
proof -
  from activationBody_Inr [OF assms] obtain p sid where
    body: "body = requestBody p sid (time_UTC_Format_RFC3339 E (time_Now E tr2)) req"
    by blast
  let ?expiration = "[''type'' \<mapsto> JString ''AfterDuration'',
      ''duration'' \<mapsto> JString (''PT'' @ sprintf_d (Duration req) @ ''M'')]"
  let ?info = "[''startDateTime'' \<mapsto> JString (time_UTC_Format_RFC3339 E (time_Now E tr2)),
      ''expiration'' \<mapsto> JObject ?expiration]"
  obtain props where props: "field body ''properties'' = Some (JObject props)"
    and si: "props ''scheduleInfo'' = Some (JObject ?info)"
    using requestBody_properties [of p sid _ req] unfolding body by blast
  have a: "?info ''startDateTime'' = Some (JString (time_UTC_Format_RFC3339 E (time_Now E tr2)))"
    by simp
  have b: "?info ''expiration'' = Some (JObject ?expiration)"
    by simp
  have c: "?expiration ''type'' = Some (JString ''AfterDuration'')"
    by simp
  have d: "?expiration ''duration'' = Some (JString (''PT'' @ sprintf_d (Duration req) @ ''M''))"
    by simp
  have e: "0 \<le> Duration req \<longrightarrow> digitsValue (sprintf_d (Duration req)) = nat (Duration req)"
    by (simp add: sprintf_d_def digitsValue_decimal)
  from props si a b c d e show ?thesis by blast
qed

theorem activationBody_scheduleInfo_witness:
  "Duration (sampleRequest ''reader'') = 90 \<and>
   ''PT'' @ sprintf_d 90 @ ''M'' = ''PT90M'' \<and>
   (\<exists>body tr2 props info expiration.
      activationBody sampleEnv (sampleRequest ''reader'') [] = (Inr body, tr2) \<and>
      field body ''properties'' = Some (JObject props) \<and>
      props ''scheduleInfo'' = Some (JObject info) \<and>
      info ''startDateTime'' = Some (JString ''2024-06-01T12:00:00Z'') \<and>
      info ''expiration'' = Some (JObject expiration) \<and>
      expiration ''type'' = Some (JString ''AfterDuration'') \<and>
      expiration ''duration'' = Some (JString ''PT90M''))"
proof -
  have pt: "''PT'' @ sprintf_d 90 @ ''M'' = ''PT90M''"
    by code_simp
  have fmt: "time_UTC_Format_RFC3339 sampleEnv t = ''2024-06-01T12:00:00Z''" for t
    by (simp add: sampleEnv_def)
  from activationBody_scheduleInfo [OF sample_activationBody]
  have "\<exists>props info expiration.
      field (requestBody ''user-1'' ''sched-1'' ''2024-06-01T12:00:00Z'' (sampleRequest ''reader''))
        ''properties'' = Some (JObject props) \<and>
      props ''scheduleInfo'' = Some (JObject info) \<and>
      info ''startDateTime'' = Some (JString ''2024-06-01T12:00:00Z'') \<and>
      info ''expiration'' = Some (JObject expiration) \<and>
      expiration ''type'' = Some (JString ''AfterDuration'') \<and>
      expiration ''duration'' = Some (JString ''PT90M'')"
    using pt by (simp add: sample_request_fields fmt) blast
  with sample_activationBody sample_request_fields(5) pt show ?thesis by blast
qed

text \<open>
  C9. Role selection: a list of one candidate is selected and returned without running the
  interactive list program, in interactive and in non-interactive mode; a list of more than
  one candidate in non-interactive mode returns an error without running the program; an
  empty list returns an error.
\<close>

theorem SelectRole_cases:
  "SelectRole T [r] nonInteractive =
     (Some (Inr r),
      [Println (SuccessStyle_Render T
         (''Auto-selecting the only eligible role: '' @ RoleName r @ '' on '' @ ScopeName r))]) \<and>
   (\<forall>rs. RunProgram rs \<notin> set (snd (SelectRole T [r] nonInteractive))) \<and>
   (1 < length roles \<longrightarrow>
      SelectRole T roles True =
        (Some (Inl (Errorf ''multiple roles available but running in non-interactive mode'')), [])) \<and>
   SelectRole T [] nonInteractive = (Some (Inl (Errorf ''no eligible roles available'')), [])"
  by (simp add: SelectRole_def)

theorem SelectRole_cases_witness:
  "program_Run sampleTerminal [sampleRole ''/i/a'' ''reader'', sampleRole ''/i/b'' ''reader''] = None \<and>
   SelectRole sampleTerminal [sampleRole ''/i/a'' ''reader'', sampleRole ''/i/b'' ''reader''] True =
     (Some (Inl (Errorf ''multiple roles available but running in non-interactive mode'')), []) \<and>
   SelectRole sampleTerminal [sampleRole ''/i/a'' ''reader''] True =
     (Some (Inr (sampleRole ''/i/a'' ''reader'')),
      [Println ''Auto-selecting the only eligible role: reader on A'']) \<and>
   SelectRole sampleTerminal [sampleRole ''/i/a'' ''reader''] False =
     (Some (Inr (sampleRole ''/i/a'' ''reader'')),
      [Println ''Auto-selecting the only eligible role: reader on A'']) \<and>
   SelectRole sampleTerminal [] False = (Some (Inl (Errorf ''no eligible roles available'')), [])"
proof -
  have names: "RoleName (sampleRole ''/i/a'' ''reader'') = ''reader''"
    "ScopeName (sampleRole ''/i/a'' ''reader'') = ''A''"
    by code_simp+
  have render: "SuccessStyle_Render sampleTerminal s = s" for s
    by (simp add: sampleTerminal_def)
  have run: "program_Run sampleTerminal rs = None" for rs
    by (simp add: sampleTerminal_def)
  note two = SelectRole_cases [of sampleTerminal _ _
      "[sampleRole ''/i/a'' ''reader'', sampleRole ''/i/b'' ''reader'']"]
  note one = SelectRole_cases [of sampleTerminal "sampleRole ''/i/a'' ''reader''"]
  have A: "SelectRole sampleTerminal [sampleRole ''/i/a'' ''reader'', sampleRole ''/i/b'' ''reader''] True =
     (Some (Inl (Errorf ''multiple roles available but running in non-interactive mode'')), [])"
    using two by simp
  have B: "SelectRole sampleTerminal [sampleRole ''/i/a'' ''reader''] ni =
     (Some (Inr (sampleRole ''/i/a'' ''reader'')),
      [Println ''Auto-selecting the only eligible role: reader on A''])" for ni
    using conjunct1 [OF one [of ni]] by (simp add: names render)
  have C: "SelectRole sampleTerminal [] False =
      (Some (Inl (Errorf ''no eligible roles available'')), [])"
    using one by blast
  from A B C run show ?thesis by blast
qed

end
